theory Spec2Isabelle
  imports Complex_Main
begin

section \<open>Values, errors and observable effects\<close>

text \<open>
  The script is TypeScript running on a JavaScript host. Values that cross the boundary
  to the generated API client (request bodies, response objects, error payloads) are
  JavaScript values. An object literal is an association list in the order its
  properties are written. Numbers never take part in any computation of the script; a
  finite number is carried as the real it denotes.
\<close>

datatype js_value =
    Undefined
  | Null
  | Bool bool
  | Num real
  | Str string
  | Arr "js_value list"
  | Obj "(string \<times> js_value) list"

text \<open>
  Everything that is thrown, or that a promise rejects with, is an error object. The
  generated client documents \<^verbatim>\<open>@throws FetchError<status, data>\<close> for every operation;
  the other constructors are the host's own error classes.
\<close>

datatype js_error =
    FetchError int js_value
  | RangeError string
  | ReferenceError string
  | TypeError string
  | SystemError string

text \<open>
  \<^verbatim>\<open>e.data\<close> on a caught error: the payload of a \<^verbatim>\<open>FetchError\<close>; the host's error
  classes have no such property, and reading a missing property yields \<^verbatim>\<open>undefined\<close>.
\<close>

fun error_data :: "js_error \<Rightarrow> js_value" where
  "error_data (FetchError status payload) = payload"
| "error_data _ = Undefined"

text \<open>
  \<^verbatim>\<open>v.data\<close> on a value: reading a property of \<^verbatim>\<open>undefined\<close> or \<^verbatim>\<open>null\<close> throws a
  \<^verbatim>\<open>TypeError\<close>; an object yields the property or \<^verbatim>\<open>undefined\<close>; primitives and arrays
  have no property of that name.
\<close>

fun get_data :: "js_value \<Rightarrow> js_error + js_value" where
  "get_data Undefined = Inl (TypeError ''Cannot read properties of undefined (reading 'data')'')"
| "get_data Null = Inl (TypeError ''Cannot read properties of null (reading 'data')'')"
| "get_data (Obj props) = Inr (case map_of props ''data'' of None \<Rightarrow> Undefined | Some v \<Rightarrow> v)"
| "get_data _ = Inr Undefined"

text \<open>
  What the script does to the outside world, in the order it happens: a request handed
  to the client's \<^verbatim>\<open>core.fetch(path, method, ...args)\<close>, a line on the console, a file
  written.
\<close>

datatype effect =
    Fetch string string "js_value list"
  | ConsoleLog js_value
  | ConsoleError js_value
  | WriteFile string string

type_synonym trace = "effect list"

text \<open>
  An \<^verbatim>\<open>async\<close> function returns a promise: \<open>Inr v\<close> is a promise fulfilled with \<open>v\<close>,
  \<open>Inl e\<close> a promise rejected with \<open>e\<close> (a \<^verbatim>\<open>throw\<close> inside the function body).
\<close>

type_synonym outcome = "js_error + js_value"

text \<open>
  The collaborators the script does not implement are parameters of the model:
  \<^item> \<open>Date_parse\<close>: the host's date parser (\<^verbatim>\<open>new Date(string)\<close>); \<open>None\<close> is an
    Invalid Date, \<open>Some t\<close> the time value in milliseconds since the epoch. The
    accepted formats other than ISO-8601 and the local time zone are the host's.
  \<^item> \<open>core_fetch\<close>: the answer of the API client to a request, which may depend on
    everything that happened before it.
  \<^item> \<open>JSON_stringify\<close>: \<^verbatim>\<open>JSON.stringify(value, null, indent)\<close> on a value other
    than \<^verbatim>\<open>undefined\<close>.
  \<^item> \<open>fs_writeFileSync\<close>: \<open>None\<close> when the write succeeds, the error thrown otherwise.
\<close>

record env =
  Date_parse :: "string \<Rightarrow> int option"
  core_fetch :: "trace \<Rightarrow> string \<Rightarrow> string \<Rightarrow> js_value list \<Rightarrow> outcome"
  JSON_stringify :: "js_value \<Rightarrow> nat \<Rightarrow> string"
  fs_writeFileSync :: "trace \<Rightarrow> string \<Rightarrow> string \<Rightarrow> js_error option"

section \<open>Host string operations\<close>

text \<open>
  The script looks at its strings in two ways only: it searches for the ASCII characters
  \<^verbatim>\<open>@\<close> and space, and it passes strings on untouched. A string is modelled as the list
  of its characters.
\<close>

text \<open>
  \<^verbatim>\<open>s.replace(pattern, replacement)\<close> with a string pattern replaces the first
  occurrence only (the replacement is taken literally when it has no \<^verbatim>\<open>$\<close> in it).
\<close>

fun String_replace :: "string \<Rightarrow> string \<Rightarrow> string \<Rightarrow> string" where
  "String_replace pat rep [] = (if pat = [] then rep else [])"
| "String_replace pat rep (c # cs) =
     (if take (length pat) (c # cs) = pat then rep @ drop (length pat) (c # cs)
      else c # String_replace pat rep cs)"

text \<open>
  \<^verbatim>\<open>s.split(" ")\<close>: the pieces between the occurrences of a one-character separator.
  The empty string gives one empty piece; adjacent separators give empty pieces.
\<close>

fun String_split :: "char \<Rightarrow> string \<Rightarrow> string list" where
  "String_split sep [] = [Nil]"
| "String_split sep (c # cs) =
     (if c = sep then [] # String_split sep cs
      else (c # hd (String_split sep cs)) # tl (String_split sep cs))"

text \<open>\<^verbatim>\<open>pieces[i]\<close>: an index past the end reads \<^verbatim>\<open>undefined\<close>.\<close>

definition index_or_undefined :: "string list \<Rightarrow> nat \<Rightarrow> js_value" where
  "index_or_undefined pieces i = (if i < length pieces then Str (pieces ! i) else Undefined)"

section \<open>Host dates\<close>

text \<open>
  A Date holds a time value: milliseconds since 1970-01-01T00:00:00Z, or NaN for an
  Invalid Date. \<^verbatim>\<open>toISOString\<close> renders the time value in UTC as
  \<^verbatim>\<open>YYYY-MM-DDTHH:mm:ss.sssZ\<close> and throws a \<^verbatim>\<open>RangeError\<close> on an Invalid Date.
  The calendar arithmetic is over the proleptic Gregorian calendar; \<open>div\<close> and
  \<open>mod\<close> on \<open>int\<close> round towards minus infinity, as the language standard's
  \<^verbatim>\<open>floor\<close> and \<^verbatim>\<open>modulo\<close> do.
\<close>

definition msPerDay :: int where
  "msPerDay = 86400000"

definition Day :: "int \<Rightarrow> int" where
  "Day t = t div msPerDay"

definition HourFromTime :: "int \<Rightarrow> int" where
  "HourFromTime t = (t div 3600000) mod 24"

definition MinFromTime :: "int \<Rightarrow> int" where
  "MinFromTime t = (t div 60000) mod 60"

definition SecFromTime :: "int \<Rightarrow> int" where
  "SecFromTime t = (t div 1000) mod 60"

definition msFromTime :: "int \<Rightarrow> int" where
  "msFromTime t = t mod 1000"

text \<open>
  The civil date of a day number (days since 1970-01-01), computed over years that
  start on 1 March, in eras of 400 years (146097 days).
\<close>

definition civil_from_days :: "int \<Rightarrow> int \<times> int \<times> int" where
  "civil_from_days z =
     (let z' = z + 719468;
          era = z' div 146097;
          doe = z' mod 146097;
          yoe = (doe - doe div 1460 + doe div 36524 - doe div 146096) div 365;
          doy = doe - (365 * yoe + yoe div 4 - yoe div 100);
          mp = (5 * doy + 2) div 153;
          d = doy - (153 * mp + 2) div 5 + 1;
          m = (if mp < 10 then mp + 3 else mp - 9);
          y = yoe + era * 400 + (if m \<le> 2 then 1 else 0)
      in (y, m, d))"

definition YearFromTime :: "int \<Rightarrow> int" where
  "YearFromTime t = fst (civil_from_days (Day t))"

definition MonthFromTime :: "int \<Rightarrow> int" where
  "MonthFromTime t = fst (snd (civil_from_days (Day t))) - 1"

definition DateFromTime :: "int \<Rightarrow> int" where
  "DateFromTime t = snd (snd (civil_from_days (Day t)))"

text \<open>
  The inverse direction, used to build time values from calendar fields
  (month \<open>0\<close> is January, as everywhere in the host's Date API).
\<close>

definition days_from_civil :: "int \<Rightarrow> int \<Rightarrow> int \<Rightarrow> int" where
  "days_from_civil y m d =
     (let y' = (if m \<le> 2 then y - 1 else y);
          era = y' div 400;
          yoe = y' mod 400;
          doy = (153 * (if m > 2 then m - 3 else m + 9) + 2) div 5 + d - 1;
          doe = yoe * 365 + yoe div 4 - yoe div 100 + doy
      in era * 146097 + doe - 719468)"

definition MakeDay :: "int \<Rightarrow> int \<Rightarrow> int \<Rightarrow> int" where
  "MakeDay year month date =
     days_from_civil (year + month div 12) (month mod 12 + 1) 1 + date - 1"

definition MakeTime :: "int \<Rightarrow> int \<Rightarrow> int \<Rightarrow> int \<Rightarrow> int" where
  "MakeTime hour minute sec ms = hour * 3600000 + minute * 60000 + sec * 1000 + ms"

definition MakeDate :: "int \<Rightarrow> int \<Rightarrow> int" where
  "MakeDate day time = day * msPerDay + time"

text \<open>Decimal rendering in a fixed number of digits, zero-padded on the left.\<close>

definition digit_char :: "nat \<Rightarrow> char" where
  "digit_char d = ''0123456789'' ! d"

fun zero_pad :: "nat \<Rightarrow> nat \<Rightarrow> string" where
  "zero_pad 0 n = []"
| "zero_pad (Suc width) n = zero_pad width (n div 10) @ [digit_char (n mod 10)]"

text \<open>
  Years 0 to 9999 are written with four digits; any other year with a sign and six
  digits (the expanded representation).
\<close>

definition iso_year :: "int \<Rightarrow> string" where
  "iso_year y =
     (if 0 \<le> y \<and> y \<le> 9999 then zero_pad 4 (nat y)
      else if y < 0 then CHR ''-'' # zero_pad 6 (nat (- y))
      else CHR ''+'' # zero_pad 6 (nat y))"

definition iso_string :: "int \<Rightarrow> string" where
  "iso_string t =
     iso_year (YearFromTime t) @ ''-'' @ zero_pad 2 (nat (MonthFromTime t + 1)) @ ''-'' @
     zero_pad 2 (nat (DateFromTime t)) @ ''T'' @
     zero_pad 2 (nat (HourFromTime t)) @ '':'' @ zero_pad 2 (nat (MinFromTime t)) @ '':'' @
     zero_pad 2 (nat (SecFromTime t)) @ ''.'' @ zero_pad 3 (nat (msFromTime t)) @ ''Z''"

text \<open>\<^verbatim>\<open>new Date(s)\<close>: the Date whose time value is what the host's parser returns.\<close>

definition new_Date :: "env \<Rightarrow> string \<Rightarrow> int option" where
  "new_Date env s = Date_parse env s"

fun toISOString :: "int option \<Rightarrow> js_error + string" where
  "toISOString None = Inl (RangeError ''Invalid time value'')"
| "toISOString (Some t) = Inr (iso_string t)"

text \<open>
  The specification's side of the timestamp: the calendar fields of a moment in UTC,
  and their ISO-8601 rendering \<^verbatim>\<open>YYYY-MM-DDTHH:mm:ss.sssZ\<close>, written from the fields
  alone.
\<close>

definition leap_year :: "int \<Rightarrow> bool" where
  "leap_year y = (y mod 4 = 0 \<and> (y mod 100 \<noteq> 0 \<or> y mod 400 = 0))"

definition days_in_month :: "int \<Rightarrow> int \<Rightarrow> int" where
  "days_in_month y m =
     (if m = 2 then (if leap_year y then 29 else 28)
      else if m = 4 \<or> m = 6 \<or> m = 9 \<or> m = 11 then 30 else 31)"

definition valid_utc_fields :: "int \<Rightarrow> int \<Rightarrow> int \<Rightarrow> int \<Rightarrow> int \<Rightarrow> int \<Rightarrow> int \<Rightarrow> bool" where
  "valid_utc_fields y mo d h mi s ms =
     (1 \<le> mo \<and> mo \<le> 12 \<and> 1 \<le> d \<and> d \<le> days_in_month y mo \<and>
      0 \<le> h \<and> h < 24 \<and> 0 \<le> mi \<and> mi < 60 \<and> 0 \<le> s \<and> s < 60 \<and> 0 \<le> ms \<and> ms < 1000)"

definition iso8601_utc :: "int \<Rightarrow> int \<Rightarrow> int \<Rightarrow> int \<Rightarrow> int \<Rightarrow> int \<Rightarrow> int \<Rightarrow> string" where
  "iso8601_utc y mo d h mi s ms =
     iso_year y @ ''-'' @ zero_pad 2 (nat mo) @ ''-'' @ zero_pad 2 (nat d) @ ''T'' @
     zero_pad 2 (nat h) @ '':'' @ zero_pad 2 (nat mi) @ '':'' @ zero_pad 2 (nat s) @ ''.'' @
     zero_pad 3 (nat ms) @ ''Z''"

section \<open>The generated API client\<close>

text \<open>
  Every operation of the generated client hands its path, its method and its arguments
  to \<^verbatim>\<open>core.fetch\<close> and returns the promise it gets. The request is recorded in the
  trace; the answer is the collaborator's.
\<close>

definition sdk_core_fetch ::
  "env \<Rightarrow> string \<Rightarrow> string \<Rightarrow> js_value list \<Rightarrow> trace \<Rightarrow> outcome \<times> trace" where
  "sdk_core_fetch env path method args w =
     (core_fetch env w path method args, w @ [Fetch path method args])"

definition postV2ObjectsCompaniesRecordsQuery :: "env \<Rightarrow> js_value \<Rightarrow> trace \<Rightarrow> outcome \<times> trace" where
  "postV2ObjectsCompaniesRecordsQuery env body =
     sdk_core_fetch env ''/v2/objects/companies/records/query'' ''post'' [body]"

definition postV2ObjectsCompaniesRecords :: "env \<Rightarrow> js_value \<Rightarrow> trace \<Rightarrow> outcome \<times> trace" where
  "postV2ObjectsCompaniesRecords env body =
     sdk_core_fetch env ''/v2/objects/companies/records'' ''post'' [body]"

definition deleteV2ObjectsCompaniesRecordsRecord_id ::
  "env \<Rightarrow> js_value \<Rightarrow> trace \<Rightarrow> outcome \<times> trace" where
  "deleteV2ObjectsCompaniesRecordsRecord_id env metadata =
     sdk_core_fetch env ''/v2/objects/companies/records/{record_id}'' ''delete'' [metadata]"

definition putV2ObjectsPeopleRecords ::
  "env \<Rightarrow> js_value \<Rightarrow> js_value \<Rightarrow> trace \<Rightarrow> outcome \<times> trace" where
  "putV2ObjectsPeopleRecords env body metadata =
     sdk_core_fetch env ''/v2/objects/people/records'' ''put'' [body, metadata]"

section \<open>The script\<close>

text \<open>
  \<^verbatim>\<open>const x = await p; rest\<close> outside any \<^verbatim>\<open>try\<close>: when \<open>p\<close> rejects, the enclosing
  \<^verbatim>\<open>async\<close> function rejects with the same error and \<open>rest\<close> never runs.
\<close>

definition await_then ::
  "(trace \<Rightarrow> outcome \<times> trace) \<Rightarrow> (js_value \<Rightarrow> trace \<Rightarrow> outcome \<times> trace) \<Rightarrow>
   trace \<Rightarrow> outcome \<times> trace" where
  "await_then p rest w =
     (case p w of (Inl e, w') \<Rightarrow> (Inl e, w') | (Inr v, w') \<Rightarrow> rest v w')"

text \<open>
  \<^verbatim>\<open>fetchCompanies\<close>: one query with an empty body, then \<^verbatim>\<open>res.data.data\<close> formatted
  and written. \<^verbatim>\<open>JSON.stringify(undefined, ...)\<close> is \<^verbatim>\<open>undefined\<close>, which
  \<^verbatim>\<open>writeFileSync\<close> refuses with a \<^verbatim>\<open>TypeError\<close>. Nothing is caught and nothing is
  returned.
\<close>

definition fetchCompanies :: "env \<Rightarrow> trace \<Rightarrow> outcome \<times> trace" where
  "fetchCompanies env =
     await_then (postV2ObjectsCompaniesRecordsQuery env (Obj []))
       (\<lambda>res w.
          case get_data res of
            Inl e \<Rightarrow> (Inl e, w)
          | Inr body \<Rightarrow>
              (case get_data body of
                 Inl e \<Rightarrow> (Inl e, w)
               | Inr listing \<Rightarrow>
                   if listing = Undefined
                   then (Inl (TypeError ''ERR_INVALID_ARG_TYPE''), w)
                   else
                     (case fs_writeFileSync env w ''./out/companies.json''
                             (JSON_stringify env listing 2) of
                        Some e \<Rightarrow> (Inl e, w)
                      | None \<Rightarrow>
                          (Inr Undefined,
                           w @ [WriteFile ''./out/companies.json''
                                  (JSON_stringify env listing 2)]))))"

text \<open>The request body \<^verbatim>\<open>createCompany\<close> builds and the metadata \<^verbatim>\<open>deleteCompany\<close> builds.\<close>

definition createCompany_body :: "string \<Rightarrow> string \<Rightarrow> js_value" where
  "createCompany_body name domain =
     Obj [(''data'',
       Obj [(''values'',
         Obj [(''name'', Arr [Obj [(''value'', Str name)]]),
              (''domains'', Arr [Obj [(''domain'', Str domain)]])])])]"

definition deleteCompany_metadata :: "string \<Rightarrow> js_value" where
  "deleteCompany_metadata company_id = Obj [(''record_id'', Str company_id)]"

text \<open>
  \<^verbatim>\<open>createCompany\<close> and \<^verbatim>\<open>deleteCompany\<close>: one awaited call, the response object
  printed, no \<^verbatim>\<open>return\<close> statement.
\<close>

definition createCompany :: "env \<Rightarrow> string \<Rightarrow> string \<Rightarrow> trace \<Rightarrow> outcome \<times> trace" where
  "createCompany env name domain =
     await_then (postV2ObjectsCompaniesRecords env (createCompany_body name domain))
       (\<lambda>res w. (Inr Undefined, w @ [ConsoleLog res]))"

definition deleteCompany :: "env \<Rightarrow> string \<Rightarrow> trace \<Rightarrow> outcome \<times> trace" where
  "deleteCompany env company_id =
     await_then
       (deleteV2ObjectsCompaniesRecordsRecord_id env (deleteCompany_metadata company_id))
       (\<lambda>res w. (Inr Undefined, w @ [ConsoleLog res]))"

text \<open>
  The two arguments of the upsert call in \<^verbatim>\<open>assertUser\<close>, as the object literals
  are written; \<open>stamp\<close> is the value of the \<^verbatim>\<open>toISOString()\<close> call inside the
  literal.
\<close>

definition upsert_body :: "string \<Rightarrow> string \<Rightarrow> string \<Rightarrow> js_value" where
  "upsert_body email name stamp =
     Obj [(''data'',
       Obj [(''values'',
         Obj [(''email_addresses'', Arr [Obj [(''email_address'', Str email)]]),
              (''name'',
                 Arr [Obj [(''full_name'', Str name),
                           (''first_name'', index_or_undefined (String_split CHR '' '' name) 0),
                           (''last_name'', index_or_undefined (String_split CHR '' '' name) 1)]]),
              (''last_session'', Obj [(''value'', Str stamp)])])])]"

definition upsert_metadata :: js_value where
  "upsert_metadata = Obj [(''matching_attribute'', Str ''email_addresses'')]"

text \<open>
  The body of the \<^verbatim>\<open>try\<close> block of \<^verbatim>\<open>assertUser\<close>: the request object is built (its
  timestamp by a second \<^verbatim>\<open>new Date(last_session).toISOString()\<close>), the upsert is
  awaited and its response returned.
\<close>

definition assertUser_try ::
  "env \<Rightarrow> string \<Rightarrow> string \<Rightarrow> string \<Rightarrow> trace \<Rightarrow> outcome \<times> trace" where
  "assertUser_try env email name last_session w =
     (case toISOString (new_Date env last_session) of
        Inl e \<Rightarrow> (Inl e, w)
      | Inr stamp \<Rightarrow>
          putV2ObjectsPeopleRecords env (upsert_body email name stamp) upsert_metadata w)"

text \<open>
  \<^verbatim>\<open>assertUser\<close>: the two statements before the \<^verbatim>\<open>try\<close> (the encoded e-mail, which
  nothing reads afterwards, and the ISO timestamp) run unprotected; whatever the
  \<^verbatim>\<open>try\<close> block throws is caught, its \<^verbatim>\<open>data\<close> goes to \<^verbatim>\<open>console.error\<close> and the
  function falls off its end.
\<close>

definition assertUser ::
  "env \<Rightarrow> string \<Rightarrow> string \<Rightarrow> string \<Rightarrow> trace \<Rightarrow> outcome \<times> trace" where
  "assertUser env email name last_session w =
     (let attr = String_replace ''@'' ''%40'' email in
      case toISOString (new_Date env last_session) of
        Inl e \<Rightarrow> (Inl e, w)
      | Inr last_session_iso \<Rightarrow>
          (case assertUser_try env email name last_session w of
             (Inr res, w') \<Rightarrow> (Inr res, w')
           | (Inl e, w') \<Rightarrow> (Inr Undefined, w' @ [ConsoleError (error_data e)])))"

text \<open>The records the batch is meant to run over.\<close>

record user =
  user_email :: string
  user_name :: string
  user_last_session :: string

text \<open>
  The loop of the entry point: each record is asserted, awaited and its result logged,
  one after the other.
\<close>

fun batch_loop :: "env \<Rightarrow> user list \<Rightarrow> trace \<Rightarrow> outcome \<times> trace" where
  "batch_loop env [] w = (Inr Undefined, w)"
| "batch_loop env (u # us) w =
     (case assertUser env (user_email u) (user_name u) (user_last_session u) w of
        (Inl e, w') \<Rightarrow> (Inl e, w')
      | (Inr res, w') \<Rightarrow> batch_loop env us (w' @ [ConsoleLog res]))"

text \<open>
  The identifiers the module binds at top level (its two imports, \<^verbatim>\<open>token\<close> and its
  four functions) and the host globals it uses. The import of \<^verbatim>\<open>users\<close> and the
  \<^verbatim>\<open>const users\<close> are both inside comments, so neither binds anything.
\<close>

definition module_bindings :: "string list" where
  "module_bindings =
     [''fs'', ''sdk'', ''token'', ''fetchCompanies'', ''createCompany'', ''deleteCompany'',
      ''assertUser'']"

definition host_globals :: "string list" where
  "host_globals = [''require'', ''process'', ''console'', ''Date'', ''JSON'']"

definition is_bound :: "string \<Rightarrow> bool" where
  "is_bound x = (x \<in> set (module_bindings @ host_globals))"

text \<open>
  The entry point, an \<^verbatim>\<open>async\<close> arrow function called at once. Reading an identifier
  that nothing binds throws a \<^verbatim>\<open>ReferenceError\<close>. \<open>users_json\<close> is what the
  commented-out definitions would have bound \<^verbatim>\<open>users\<close> to.
\<close>

definition main :: "env \<Rightarrow> user list \<Rightarrow> trace \<Rightarrow> outcome \<times> trace" where
  "main env users_json w =
     (if is_bound ''users'' then batch_loop env users_json w
      else (Inl (ReferenceError ''users is not defined''), w))"

section \<open>Observations\<close>

text \<open>The requests in a trace, in order: path, method and arguments of each.\<close>

fun requests_of :: "trace \<Rightarrow> (string \<times> string \<times> js_value list) list" where
  "requests_of [] = []"
| "requests_of (Fetch path method args # es) = (path, method, args) # requests_of es"
| "requests_of (ConsoleLog v # es) = requests_of es"
| "requests_of (ConsoleError v # es) = requests_of es"
| "requests_of (WriteFile path text # es) = requests_of es"

text \<open>The requests one call of \<^verbatim>\<open>assertUser\<close> adds to the trace it starts from.\<close>

definition upsert_requests ::
  "env \<Rightarrow> string \<Rightarrow> string \<Rightarrow> string \<Rightarrow> trace \<Rightarrow> (string \<times> string \<times> js_value list) list" where
  "upsert_requests env email name last_session w =
     requests_of (drop (length w) (snd (assertUser env email name last_session w)))"

text \<open>
  The body and the metadata of the upsert request of one call of \<^verbatim>\<open>assertUser\<close>:
  \<open>None\<close> unless the call issued exactly one request, a \<^verbatim>\<open>put\<close> on the person
  records.
\<close>

definition upsert_payload ::
  "env \<Rightarrow> string \<Rightarrow> string \<Rightarrow> string \<Rightarrow> trace \<Rightarrow> (js_value \<times> js_value) option" where
  "upsert_payload env email name last_session w =
     (case upsert_requests env email name last_session w of
        [(path, method, [body, metadata])] \<Rightarrow>
          if path = ''/v2/objects/people/records'' \<and> method = ''put''
          then Some (body, metadata) else None
      | _ \<Rightarrow> None)"

text \<open>Reading a request: \<^verbatim>\<open>v.key\<close> and \<^verbatim>\<open>v[i]\<close>, \<^verbatim>\<open>undefined\<close> where there is nothing.\<close>

fun property :: "string \<Rightarrow> js_value \<Rightarrow> js_value" where
  "property key (Obj props) = (case map_of props key of None \<Rightarrow> Undefined | Some v \<Rightarrow> v)"
| "property key _ = Undefined"

fun element :: "nat \<Rightarrow> js_value \<Rightarrow> js_value" where
  "element i (Arr vs) = (if i < length vs then vs ! i else Undefined)"
| "element i _ = Undefined"

definition payload_email :: "js_value \<Rightarrow> js_value" where
  "payload_email body =
     property ''email_address'' (element 0 (property ''email_addresses'' (property ''values'' (property ''data'' body))))"

definition payload_name :: "js_value \<Rightarrow> js_value" where
  "payload_name body = element 0 (property ''name'' (property ''values'' (property ''data'' body)))"

definition payload_last_session :: "js_value \<Rightarrow> js_value" where
  "payload_last_session body =
     property ''value'' (property ''last_session'' (property ''values'' (property ''data'' body)))"

section \<open>Sample hosts\<close>

text \<open>
  A host in the UTC zone whose parser reads the one sample string of the specification
  as 19 April 2024, 13:19 local time, and nothing else.
\<close>

definition utc_host_parse :: "string \<Rightarrow> int option" where
  "utc_host_parse s =
     (if s = ''April 19, 2024, 1:19 PM''
      then Some (MakeDate (MakeDay 2024 3 19) (MakeTime 13 19 0 0)) else None)"

text \<open>
  A host seven hours behind UTC (Pacific daylight time) reading the same string: 13:19
  local time is 20:19 UTC.
\<close>

definition pacific_host_parse :: "string \<Rightarrow> int option" where
  "pacific_host_parse s =
     (if s = ''April 19, 2024, 1:19 PM''
      then Some (MakeDate (MakeDay 2024 3 19) (MakeTime 13 19 0 0) + 7 * 3600000) else None)"

text \<open>A client that answers every request with a validation error.\<close>

definition rejecting_env :: env where
  "rejecting_env =
     \<lparr> Date_parse = utc_host_parse,
       core_fetch = (\<lambda>w path method args.
          Inl (FetchError 400 (Obj [(''status_code'', Num 400), (''type'', Str ''invalid_request_error'')]))),
       JSON_stringify = (\<lambda>v indent. ''[]''),
       fs_writeFileSync = (\<lambda>w path text. None) \<rparr>"

text \<open>A client that answers every request with an empty listing; every write succeeds.\<close>

definition accepting_env :: env where
  "accepting_env =
     \<lparr> Date_parse = utc_host_parse,
       core_fetch = (\<lambda>w path method args.
          Inr (Obj [(''data'', Obj [(''data'', Arr [])]), (''status'', Num 200)])),
       JSON_stringify = (\<lambda>v indent. ''[]''),
       fs_writeFileSync = (\<lambda>w path text. None) \<rparr>"

text \<open>The same client on the Pacific host.\<close>

definition pacific_env :: env where
  "pacific_env = accepting_env \<lparr> Date_parse := pacific_host_parse \<rparr>"

text \<open>The same client on a disk that refuses every write.\<close>

definition readonly_env :: env where
  "readonly_env = accepting_env \<lparr> fs_writeFileSync := (\<lambda>w path text. Some (SystemError ''ENOENT'')) \<rparr>"

text \<open>A client that answers every request with the given response object; every write succeeds.\<close>

definition answering_env :: "js_value \<Rightarrow> env" where
  "answering_env res = accepting_env \<lparr> core_fetch := (\<lambda>w path method args. Inr res) \<rparr>"

section \<open>Basic facts\<close>

lemma String_split_not_Nil: "String_split sep s \<noteq> []"
  by (induction s) auto

lemma String_split_no_separator: "sep \<notin> set s \<Longrightarrow> String_split sep s = [s]"
  by (induction s) auto

lemma String_split_append:
  "sep \<notin> set a \<Longrightarrow> String_split sep (a @ sep # rest) = a # String_split sep rest"
  by (induction a) auto

lemma hd_String_split: "hd (String_split sep s) = takeWhile (\<lambda>c. c \<noteq> sep) s"
  by (induction s) auto

lemma String_split_first_separator:
  "sep \<in> set s \<Longrightarrow>
   String_split sep s =
     takeWhile (\<lambda>c. c \<noteq> sep) s # String_split sep (tl (dropWhile (\<lambda>c. c \<noteq> sep) s))"
  by (induction s) auto

lemma String_replace_at_longer:
  "CHR ''@'' \<in> set email \<Longrightarrow> length (String_replace ''@'' ''%40'' email) = length email + 2"
  by (induction email) auto

lemma toISOString_parsed:
  "Date_parse env last_session = Some t \<Longrightarrow>
   toISOString (new_Date env last_session) = Inr (iso_string t)"
  by (simp add: new_Date_def)

lemma await_then_rejected: "p w = (Inl e, w') \<Longrightarrow> await_then p rest w = (Inl e, w')"
  by (simp add: await_then_def)

lemma await_then_fulfilled: "p w = (Inr v, w') \<Longrightarrow> await_then p rest w = rest v w'"
  by (simp add: await_then_def)

lemma requests_of_append: "requests_of (xs @ ys) = requests_of xs @ requests_of ys"
  by (induction xs rule: requests_of.induct) simp_all

lemma assertUser_parsed:
  assumes "Date_parse env last_session = Some t"
  shows "assertUser env email name last_session w =
     (case core_fetch env w ''/v2/objects/people/records'' ''put''
             [upsert_body email name (iso_string t), upsert_metadata] of
        Inl e \<Rightarrow>
          (Inr Undefined,
           w @ [Fetch ''/v2/objects/people/records'' ''put''
                  [upsert_body email name (iso_string t), upsert_metadata],
                ConsoleError (error_data e)])
      | Inr res \<Rightarrow>
          (Inr res,
           w @ [Fetch ''/v2/objects/people/records'' ''put''
                  [upsert_body email name (iso_string t), upsert_metadata]]))"
  using assms
  by (simp add: assertUser_def assertUser_try_def toISOString_parsed
      putV2ObjectsPeopleRecords_def sdk_core_fetch_def split: sum.split)

lemma upsert_requests_parsed:
  assumes "Date_parse env last_session = Some t"
  shows "upsert_requests env email name last_session w =
     [(''/v2/objects/people/records'', ''put'',
       [upsert_body email name (iso_string t), upsert_metadata])]"
  by (simp add: upsert_requests_def assertUser_parsed [OF assms] split: sum.split)

lemma upsert_payload_parsed:
  assumes "Date_parse env last_session = Some t"
  shows "upsert_payload env email name last_session w =
           Some (upsert_body email name (iso_string t), upsert_metadata)"
  by (simp add: upsert_payload_def upsert_requests_parsed [OF assms])

lemma payload_name_upsert_body:
  "payload_name (upsert_body email name stamp) =
     Obj [(''full_name'', Str name),
          (''first_name'', index_or_undefined (String_split CHR '' '' name) 0),
          (''last_name'', index_or_undefined (String_split CHR '' '' name) 1)]"
  by (simp add: payload_name_def upsert_body_def)

lemma payload_email_upsert_body: "payload_email (upsert_body email name stamp) = Str email"
  by (simp add: payload_email_def upsert_body_def)

lemma payload_last_session_upsert_body:
  "payload_last_session (upsert_body email name stamp) = Str stamp"
  by (simp add: payload_last_session_def upsert_body_def)

lemma utc_host_sample:
  "utc_host_parse ''April 19, 2024, 1:19 PM'' = Some 1713532740000"
  by (simp add: utc_host_parse_def MakeDate_def MakeDay_def MakeTime_def
      days_from_civil_def msPerDay_def)

lemma pacific_host_sample:
  "pacific_host_parse ''April 19, 2024, 1:19 PM'' = Some 1713557940000"
  by (simp add: pacific_host_parse_def MakeDate_def MakeDay_def MakeTime_def
      days_from_civil_def msPerDay_def)

lemma iso_string_sample: "iso_string 1713532740000 = ''2024-04-19T13:19:00.000Z''"
  by code_simp

lemma last_name_upsert_body:
  "property ''last_name'' (payload_name (upsert_body email name stamp)) =
     index_or_undefined (String_split CHR '' '' name) 1"
  by (simp add: payload_name_upsert_body)

lemma fetchCompanies_one_request:
  "requests_of (drop (length w) (snd (fetchCompanies env w))) =
     [(''/v2/objects/companies/records/query'', ''post'', [Obj []])]"
  by (simp add: fetchCompanies_def await_then_def postV2ObjectsCompaniesRecordsQuery_def
      sdk_core_fetch_def split: sum.split option.split)

section \<open>Calendar arithmetic\<close>

text \<open>
  The two directions between day numbers and civil dates are inverse to each other on
  the valid dates, and every time value has valid UTC fields; so the rendering of a time
  value is the rendering of its fields.
\<close>

lemma div_unique_int: "(a::int) = b * q + r \<Longrightarrow> 0 \<le> r \<Longrightarrow> r < b \<Longrightarrow> a div b = q"
  by (simp add: int_div_pos_eq)

lemma yoe_recovered:
  fixes c q r doy :: int
  assumes c: "0 \<le> c" "c \<le> 3" and q: "0 \<le> q" "q \<le> 24" and r: "0 \<le> r" "r \<le> 3"
    and doy: "0 \<le> doy" "doy \<le> 365"
    and leap: "doy = 365 \<Longrightarrow> r = 3 \<and> (q < 24 \<or> c = 3)"
    and doe: "doe = 36524 * c + 1461 * q + 365 * r + doy"
  shows "(doe - doe div 1460 + doe div 36524 - doe div 146096) div 365 = 100 * c + 4 * q + r"
proof -
  define ind where "ind = (if 1460 \<le> 24 * c + q + 365 * r + doy then 1 else 0 :: int)"
  define top where "top = (if doe = 146096 then 1 else 0 :: int)"
  have a: "doe div 1460 = 25 * c + q + ind"
    by (rule div_unique_int [where r = "24 * c + q + 365 * r + doy - 1460 * ind"])
       (use c q r doy doe in \<open>auto simp add: ind_def\<close>)
  have range: "0 \<le> doe" "doe \<le> 146096"
    using c q r doy leap doe by auto
  have c': "doe div 146096 = top"
    by (rule div_unique_int [where r = "doe - 146096 * top"])
       (use range in \<open>auto simp add: top_def\<close>)
  have small: "1461 * q + 365 * r + doy \<le> 36523" if "doe \<noteq> 146096"
  proof (cases "doy = 365")
    case True
    with leap have "r = 3" "q < 24 \<or> c = 3" by auto
    with that True doe q show ?thesis by auto
  next
    case False
    with doy q r show ?thesis by auto
  qed
  have b: "doe div 36524 = c + top"
  proof (cases "doe = 146096")
    case True
    then show ?thesis using c q r doy doe by (auto simp add: top_def)
  next
    case False
    show ?thesis
      by (rule div_unique_int [where r = "1461 * q + 365 * r + doy"])
         (use False small c q r doy doe in \<open>auto simp add: top_def\<close>)
  qed
  have low: "0 \<le> doy - ind"
    using c q r doy by (auto simp add: ind_def)
  have high: "doy - ind < 365"
  proof (cases "doy = 365")
    case True
    with leap have "r = 3" by simp
    with True c q show ?thesis by (simp add: ind_def)
  next
    case False
    with doy show ?thesis by (auto simp add: ind_def)
  qed
  have "doe - doe div 1460 + doe div 36524 - doe div 146096 =
      365 * (100 * c + 4 * q + r) + (doy - ind)"
    unfolding a b c' by (simp add: doe)
  with low high show ?thesis
    by (simp add: div_unique_int [where r = "doy - ind"])
qed

lemma year_split:
  fixes yoe :: int
  shows "yoe = 100 * (yoe div 100) + 4 * (yoe mod 100 div 4) + yoe mod 4"
proof -
  have "yoe = 100 * (yoe div 100) + yoe mod 100" by simp
  moreover have "yoe mod 100 = 4 * (yoe mod 100 div 4) + yoe mod 100 mod 4" by simp
  moreover have "yoe mod 100 mod 4 = yoe mod 4"
    by (simp add: mod_mod_cancel)
  ultimately show ?thesis by linarith
qed

lemma century_bounds:
  fixes yoe :: int
  assumes "0 \<le> yoe" "yoe < 400"
  shows "0 \<le> yoe div 100" "yoe div 100 \<le> 3"
proof -
  show "0 \<le> yoe div 100"
    using assms by (simp add: pos_imp_zdiv_nonneg_iff)
  have "yoe div 100 \<le> 399 div 100"
    by (rule zdiv_mono1) (use assms in auto)
  then show "yoe div 100 \<le> 3" by simp
qed

lemma quarter_split:
  fixes yoe :: int
  shows "yoe div 4 = 25 * (yoe div 100) + yoe mod 100 div 4"
proof -
  have "yoe div 4 = (100 * (yoe div 100) + yoe mod 100) div 4" by simp
  also have "\<dots> = 25 * (yoe div 100) + yoe mod 100 div 4"
    by (rule int_div_pos_eq [where r = "yoe mod 100 mod 4"]) simp_all
  finally show ?thesis .
qed

lemma leap_cycle:
  fixes yoe :: int
  assumes "yoe mod 4 = 3" "yoe mod 100 \<noteq> 99 \<or> yoe = 399"
  shows "yoe mod 100 div 4 < 24 \<or> yoe div 100 = 3"
proof (cases "yoe = 399")
  case True
  then show ?thesis by simp
next
  case False
  with assms have ne: "yoe mod 100 \<noteq> 99" by simp
  have "yoe mod 100 = 4 * (yoe mod 100 div 4) + yoe mod 100 mod 4" by simp
  moreover have "yoe mod 100 mod 4 = yoe mod 4"
    by (simp add: mod_mod_cancel)
  ultimately have "yoe mod 100 = 4 * (yoe mod 100 div 4) + 3"
    using assms(1) by simp
  with ne have "yoe mod 100 div 4 \<noteq> 24" by auto
  moreover have "yoe mod 100 div 4 \<le> 24" by simp
  ultimately show ?thesis by simp
qed

lemma year_of_era:
  fixes yoe doy doe :: int
  assumes yoe: "0 \<le> yoe" "yoe < 400" and doy: "0 \<le> doy" "doy \<le> 365"
    and leap: "doy = 365 \<longrightarrow> yoe mod 4 = 3 \<and> (yoe mod 100 \<noteq> 99 \<or> yoe = 399)"
    and doe: "doe = 365 * yoe + yoe div 4 - yoe div 100 + doy"
  shows "0 \<le> doe" and "doe < 146097"
    and "(doe - doe div 1460 + doe div 36524 - doe div 146096) div 365 = yoe"
proof -
  define c where "c = yoe div 100"
  define q where "q = yoe mod 100 div 4"
  define r where "r = yoe mod 4"
  have split: "yoe = 100 * c + 4 * q + r"
    unfolding c_def q_def r_def by (rule year_split)
  have c: "0 \<le> c" "c \<le> 3"
    using century_bounds [OF yoe] by (simp_all add: c_def)
  have q: "0 \<le> q" "q \<le> 24"
    by (simp_all add: q_def pos_imp_zdiv_nonneg_iff)
  have r: "0 \<le> r" "r \<le> 3"
    by (simp_all add: r_def)
  have quarter: "yoe div 4 = 25 * c + q"
    unfolding c_def q_def by (rule quarter_split)
  have "doe = 365 * yoe + (25 * c + q) - c + doy"
    by (simp only: doe quarter c_def [symmetric])
  with split have doe': "doe = 36524 * c + 1461 * q + 365 * r + doy"
    by linarith
  have leap': "doy = 365 \<Longrightarrow> r = 3 \<and> (q < 24 \<or> c = 3)"
    using leap leap_cycle [of yoe] by (simp add: c_def q_def r_def)
  show "(doe - doe div 1460 + doe div 36524 - doe div 146096) div 365 = yoe"
    using yoe_recovered [OF c q r doy leap' doe'] split by linarith
  show "0 \<le> doe"
    using c q r doy doe' by simp
  show "doe < 146097"
  proof (cases "doy = 365")
    case True
    with leap' have "r = 3" "q < 24 \<or> c = 3" by auto
    with True c q doe' show ?thesis by auto
  next
    case False
    with c q r doy doe' show ?thesis by simp
  qed
qed

lemma month_cases:
  fixes m :: int
  assumes "1 \<le> m" "m \<le> 12"
  obtains "m = 1" | "m = 2" | "m = 3" | "m = 4" | "m = 5" | "m = 6"
    | "m = 7" | "m = 8" | "m = 9" | "m = 10" | "m = 11" | "m = 12"
  using assms by atomize_elim arith

lemma month_of_day_of_year:
  fixes y m d mp doy :: int
  assumes m: "1 \<le> m" "m \<le> 12" and d: "1 \<le> d" "d \<le> days_in_month y m"
    and mp: "mp = (if m > 2 then m - 3 else m + 9)"
    and doy: "doy = (153 * mp + 2) div 5 + d - 1"
  shows "(5 * doy + 2) div 153 = mp"
    and "0 \<le> doy" and "doy \<le> 365" and "doy = 365 \<longrightarrow> m = 2 \<and> d = 29"
proof -
  have "(5 * doy + 2) div 153 = mp \<and> 0 \<le> doy \<and> doy \<le> 365 \<and> (doy = 365 \<longrightarrow> m = 2 \<and> d = 29)"
    using m
  proof (cases rule: month_cases)
    case 1
    then have "doy = 305 + d" "mp = 10" "d \<le> 31"
      using d mp doy by (simp_all add: days_in_month_def)
    with d(1) show ?thesis
      by (simp add: div_unique_int [where r = "5 * d - 3"])
  next
    case 2
    then have "doy = 336 + d" "mp = 11" "d \<le> 29"
      using d mp doy by (simp_all add: days_in_month_def split: if_splits)
    with d(1) 2 show ?thesis
      by (simp add: div_unique_int [where r = "5 * d - 1"])
  next
    case 3
    then have "doy = d - 1" "mp = 0" "d \<le> 31"
      using d mp doy by (simp_all add: days_in_month_def)
    with d(1) show ?thesis
      by (simp add: div_unique_int [where r = "5 * d - 3"])
  next
    case 4
    then have "doy = 30 + d" "mp = 1" "d \<le> 30"
      using d mp doy by (simp_all add: days_in_month_def)
    with d(1) show ?thesis
      by (simp add: div_unique_int [where r = "5 * d - 1"])
  next
    case 5
    then have "doy = 60 + d" "mp = 2" "d \<le> 31"
      using d mp doy by (simp_all add: days_in_month_def)
    with d(1) show ?thesis
      by (simp add: div_unique_int [where r = "5 * d - 4"])
  next
    case 6
    then have "doy = 91 + d" "mp = 3" "d \<le> 30"
      using d mp doy by (simp_all add: days_in_month_def)
    with d(1) show ?thesis
      by (simp add: div_unique_int [where r = "5 * d - 2"])
  next
    case 7
    then have "doy = 121 + d" "mp = 4" "d \<le> 31"
      using d mp doy by (simp_all add: days_in_month_def)
    with d(1) show ?thesis
      by (simp add: div_unique_int [where r = "5 * d - 5"])
  next
    case 8
    then have "doy = 152 + d" "mp = 5" "d \<le> 31"
      using d mp doy by (simp_all add: days_in_month_def)
    with d(1) show ?thesis
      by (simp add: div_unique_int [where r = "5 * d - 3"])
  next
    case 9
    then have "doy = 183 + d" "mp = 6" "d \<le> 30"
      using d mp doy by (simp_all add: days_in_month_def)
    with d(1) show ?thesis
      by (simp add: div_unique_int [where r = "5 * d - 1"])
  next
    case 10
    then have "doy = 213 + d" "mp = 7" "d \<le> 31"
      using d mp doy by (simp_all add: days_in_month_def)
    with d(1) show ?thesis
      by (simp add: div_unique_int [where r = "5 * d - 4"])
  next
    case 11
    then have "doy = 244 + d" "mp = 8" "d \<le> 30"
      using d mp doy by (simp_all add: days_in_month_def)
    with d(1) show ?thesis
      by (simp add: div_unique_int [where r = "5 * d - 2"])
  next
    case 12
    then have "doy = 274 + d" "mp = 9" "d \<le> 31"
      using d mp doy by (simp_all add: days_in_month_def)
    with d(1) show ?thesis
      by (simp add: div_unique_int [where r = "5 * d - 5"])
  qed
  then show "(5 * doy + 2) div 153 = mp" "0 \<le> doy" "doy \<le> 365" "doy = 365 \<longrightarrow> m = 2 \<and> d = 29"
    by simp_all
qed

lemma civil_from_days_fields:
  assumes z: "z + 719468 = era * 146097 + doe"
    and doe: "0 \<le> doe" "doe < 146097"
    and yoe: "(doe - doe div 1460 + doe div 36524 - doe div 146096) div 365 = yoe"
    and doy: "doe - (365 * yoe + yoe div 4 - yoe div 100) = doy"
    and mp: "(5 * doy + 2) div 153 = mp"
  shows "civil_from_days z =
     (yoe + era * 400 + (if (if mp < 10 then mp + 3 else mp - 9) \<le> 2 then 1 else 0),
      (if mp < 10 then mp + 3 else mp - 9),
      doy - (153 * mp + 2) div 5 + 1)"
proof -
  have era: "(z + 719468) div 146097 = era"
    unfolding z by (rule div_unique_int [where r = doe]) (use doe in simp_all)
  have "(z + 719468) mod 146097 = z + 719468 - 146097 * ((z + 719468) div 146097)"
    by (simp add: minus_mult_div_eq_mod)
  then have rest: "(z + 719468) mod 146097 = doe"
    unfolding era using z by simp
  show ?thesis
    unfolding civil_from_days_def Let_def era rest yoe doy mp by (rule refl)
qed

lemma leap_year_of_era:
  fixes y :: int
  assumes "leap_year y"
  shows "(y - 1) mod 400 mod 4 = 3"
    and "(y - 1) mod 400 mod 100 \<noteq> 99 \<or> (y - 1) mod 400 = 399"
proof -
  from assms have four: "y mod 4 = 0" and cent: "y mod 100 \<noteq> 0 \<or> y mod 400 = 0"
    by (simp_all add: leap_year_def)
  have "(y - 1) mod 400 mod 4 = (y - 1) mod 4"
    by (simp add: mod_mod_cancel)
  also have "\<dots> = (y mod 4 - 1) mod 4"
    by (simp add: mod_diff_left_eq)
  finally show "(y - 1) mod 400 mod 4 = 3"
    by (simp add: four)
  show "(y - 1) mod 400 mod 100 \<noteq> 99 \<or> (y - 1) mod 400 = 399"
  proof (cases "y mod 400 = 0")
    case True
    have "(y - 1) mod 400 = (y mod 400 - 1) mod 400"
      by (simp add: mod_diff_left_eq)
    then show ?thesis by (simp add: True)
  next
    case False
    with cent have nonzero: "y mod 100 \<noteq> 0" by simp
    have low: "0 \<le> y mod 100" and high: "y mod 100 < 100"
      by simp_all
    have "(y - 1) mod 400 mod 100 = (y - 1) mod 100"
      by (simp add: mod_mod_cancel)
    also have "\<dots> = (y mod 100 - 1) mod 100"
      by (simp add: mod_diff_left_eq)
    also have "\<dots> = y mod 100 - 1"
      by (rule mod_pos_pos_trivial) (use nonzero low high in linarith)+
    finally show ?thesis
      using high by simp
  qed
qed

lemma civil_from_days_inverse:
  assumes m: "1 \<le> m" "m \<le> 12" and d: "1 \<le> d" "d \<le> days_in_month y m"
  shows "civil_from_days (days_from_civil y m d) = (y, m, d)"
proof -
  define y' where "y' = (if m \<le> 2 then y - 1 else y)"
  define era where "era = y' div 400"
  define yoe where "yoe = y' mod 400"
  define mp where "mp = (if m > 2 then m - 3 else m + 9)"
  define doy where "doy = (153 * mp + 2) div 5 + d - 1"
  define doe where "doe = 365 * yoe + yoe div 4 - yoe div 100 + doy"
  have z: "days_from_civil y m d + 719468 = era * 146097 + doe"
    by (simp add: days_from_civil_def Let_def y'_def era_def yoe_def mp_def doy_def doe_def)
  note month = month_of_day_of_year [OF m d mp_def doy_def]
  have yoe: "0 \<le> yoe" "yoe < 400"
    by (simp_all add: yoe_def)
  have leap: "doy = 365 \<longrightarrow> yoe mod 4 = 3 \<and> (yoe mod 100 \<noteq> 99 \<or> yoe = 399)"
  proof
    assume "doy = 365"
    with month(4) have "m = 2" "d = 29" by simp_all
    with d(2) have "leap_year y"
      by (simp add: days_in_month_def split: if_splits)
    moreover have "yoe = (y - 1) mod 400"
      using \<open>m = 2\<close> by (simp add: yoe_def y'_def)
    ultimately show "yoe mod 4 = 3 \<and> (yoe mod 100 \<noteq> 99 \<or> yoe = 399)"
      using leap_year_of_era [of y] by simp
  qed
  note era_facts = year_of_era [OF yoe month(2,3) leap doe_def]
  have doy_back: "doe - (365 * yoe + yoe div 4 - yoe div 100) = doy"
    by (simp add: doe_def)
  have fields: "civil_from_days (days_from_civil y m d) =
     (yoe + era * 400 + (if (if mp < 10 then mp + 3 else mp - 9) \<le> 2 then 1 else 0),
      (if mp < 10 then mp + 3 else mp - 9),
      doy - (153 * mp + 2) div 5 + 1)"
    by (rule civil_from_days_fields [OF z era_facts(1,2,3) doy_back month(1)])
  have month_back: "(if mp < 10 then mp + 3 else mp - 9) = m"
    using m by (simp add: mp_def)
  have day_back: "doy - (153 * mp + 2) div 5 + 1 = d"
    by (simp add: doy_def)
  have "yoe + era * 400 = y'"
    by (simp add: yoe_def era_def)
  then have year_back: "yoe + era * 400 + (if m \<le> 2 then 1 else 0) = y"
    by (simp add: y'_def)
  show ?thesis
    unfolding fields month_back day_back year_back by (rule refl)
qed

lemma MakeDay_civil:
  assumes "1 \<le> mo" "mo \<le> 12"
  shows "MakeDay y (mo - 1) d = days_from_civil y mo d"
proof -
  have "(mo - 1) div 12 = 0" "(mo - 1) mod 12 = mo - 1"
    using assms by simp_all
  then show ?thesis
    by (simp add: MakeDay_def days_from_civil_def Let_def)
qed

lemma time_within_day:
  assumes "0 \<le> h" "h < 24" "0 \<le> mi" "mi < 60" "0 \<le> s" "s < 60" "0 \<le> ms" "ms < 1000"
  shows "Day (MakeDate day (MakeTime h mi s ms)) = day"
    and "HourFromTime (MakeDate day (MakeTime h mi s ms)) = h"
    and "MinFromTime (MakeDate day (MakeTime h mi s ms)) = mi"
    and "SecFromTime (MakeDate day (MakeTime h mi s ms)) = s"
    and "msFromTime (MakeDate day (MakeTime h mi s ms)) = ms"
proof -
  let ?t = "MakeDate day (MakeTime h mi s ms)"
  have t: "?t = day * 86400000 + h * 3600000 + mi * 60000 + s * 1000 + ms"
    by (simp add: MakeDate_def MakeTime_def msPerDay_def)
  show "Day ?t = day"
    unfolding Day_def msPerDay_def t
    by (rule div_unique_int [where r = "h * 3600000 + mi * 60000 + s * 1000 + ms"])
       (use assms in simp_all)
  have hours: "?t div 3600000 = day * 24 + h"
    unfolding t
    by (rule div_unique_int [where r = "mi * 60000 + s * 1000 + ms"]) (use assms in simp_all)
  have "(day * 24 + h) mod 24 = h"
    by (rule int_mod_pos_eq [where q = day]) (use assms in simp_all)
  then show "HourFromTime ?t = h"
    unfolding HourFromTime_def hours .
  have minutes: "?t div 60000 = (day * 1440 + h * 60) + mi"
    unfolding t
    by (rule div_unique_int [where r = "s * 1000 + ms"]) (use assms in simp_all)
  have "((day * 1440 + h * 60) + mi) mod 60 = mi"
    by (rule int_mod_pos_eq [where q = "day * 24 + h"]) (use assms in simp_all)
  then show "MinFromTime ?t = mi"
    unfolding MinFromTime_def minutes .
  have seconds: "?t div 1000 = (day * 86400 + h * 3600 + mi * 60) + s"
    unfolding t
    by (rule div_unique_int [where r = ms]) (use assms in simp_all)
  have "((day * 86400 + h * 3600 + mi * 60) + s) mod 60 = s"
    by (rule int_mod_pos_eq [where q = "day * 1440 + h * 60 + mi"]) (use assms in simp_all)
  then show "SecFromTime ?t = s"
    unfolding SecFromTime_def seconds .
  show "msFromTime ?t = ms"
    unfolding msFromTime_def t
    by (rule int_mod_pos_eq [where q = "day * 86400 + h * 3600 + mi * 60 + s"])
       (use assms in simp_all)
qed

lemma iso_string_fields:
  assumes "valid_utc_fields y mo d h mi s ms"
  shows "iso_string (MakeDate (MakeDay y (mo - 1) d) (MakeTime h mi s ms)) =
           iso8601_utc y mo d h mi s ms"
proof -
  from assms have mo: "1 \<le> mo" "mo \<le> 12" and d: "1 \<le> d" "d \<le> days_in_month y mo"
    and tm: "0 \<le> h" "h < 24" "0 \<le> mi" "mi < 60" "0 \<le> s" "s < 60" "0 \<le> ms" "ms < 1000"
    by (simp_all add: valid_utc_fields_def)
  note clock = time_within_day [OF tm, of "MakeDay y (mo - 1) d"]
  have date: "civil_from_days (MakeDay y (mo - 1) d) = (y, mo, d)"
    unfolding MakeDay_civil [OF mo] by (rule civil_from_days_inverse [OF mo d])
  show ?thesis
    by (simp add: iso_string_def iso8601_utc_def YearFromTime_def MonthFromTime_def
        DateFromTime_def clock date)
qed

lemma doe_decomposition:
  fixes doe :: int
  assumes doe: "0 \<le> doe" "doe < 146097"
  obtains yoe doy where "0 \<le> yoe" "yoe < 400" "0 \<le> doy" "doy \<le> 365"
    "doy = 365 \<longrightarrow> yoe mod 4 = 3 \<and> (yoe mod 100 \<noteq> 99 \<or> yoe = 399)"
    "doe = 365 * yoe + yoe div 4 - yoe div 100 + doy"
proof -
  define c where "c = (if doe = 146096 then 3 else doe div 36524)"
  define rem1 where "rem1 = doe - 36524 * c"
  define q where "q = rem1 div 1461"
  define rem2 where "rem2 = rem1 mod 1461"
  define r where "r = (if rem2 = 1460 then 3 else rem2 div 365)"
  define doy where "doy = rem2 - 365 * r"
  define yoe where "yoe = 100 * c + 4 * q + r"
  have c: "0 \<le> c" "c \<le> 3"
  proof -
    show "0 \<le> c"
      using doe by (simp add: c_def pos_imp_zdiv_nonneg_iff)
    have "doe \<noteq> 146096 \<Longrightarrow> doe div 36524 \<le> 146095 div 36524"
      by (rule zdiv_mono1) (use doe in auto)
    then show "c \<le> 3"
      by (cases "doe = 146096") (simp_all add: c_def)
  qed
  have rem1: "0 \<le> rem1 \<and> rem1 \<le> 36524 \<and> (rem1 = 36524 \<longrightarrow> c = 3)"
  proof (cases "doe = 146096")
    case True
    then show ?thesis by (simp add: rem1_def c_def)
  next
    case False
    then have "rem1 = doe mod 36524"
      by (simp add: rem1_def c_def minus_mult_div_eq_mod)
    moreover have "0 \<le> doe mod 36524" "doe mod 36524 < 36524"
      by simp_all
    ultimately show ?thesis by linarith
  qed
  have q: "0 \<le> q" "q \<le> 24"
  proof -
    show "0 \<le> q"
      using rem1 by (simp add: q_def pos_imp_zdiv_nonneg_iff)
    have "rem1 div 1461 \<le> 36524 div 1461"
      by (rule zdiv_mono1) (use rem1 in simp_all)
    then show "q \<le> 24"
      by (simp add: q_def)
  qed
  have rem1_split: "rem1 = 1461 * q + rem2"
    by (simp add: q_def rem2_def)
  have rem2: "0 \<le> rem2" "rem2 \<le> 1460"
    by (simp_all add: rem2_def)
  have r: "0 \<le> r" "r \<le> 3"
  proof -
    show "0 \<le> r"
      using rem2 by (simp add: r_def pos_imp_zdiv_nonneg_iff)
    have "rem2 div 365 \<le> 1460 div 365"
      by (rule zdiv_mono1) (use rem2 in auto)
    moreover have "rem2 \<noteq> 1460 \<Longrightarrow> rem2 div 365 \<le> 1459 div 365"
      by (rule zdiv_mono1) (use rem2 in auto)
    ultimately show "r \<le> 3"
      by (cases "rem2 = 1460") (simp_all add: r_def)
  qed
  have doy: "0 \<le> doy \<and> doy \<le> 365 \<and> (doy = 365 \<longrightarrow> rem2 = 1460 \<and> r = 3)"
  proof (cases "rem2 = 1460")
    case True
    then show ?thesis by (simp add: doy_def r_def)
  next
    case False
    then have "doy = rem2 mod 365"
      by (simp add: doy_def r_def minus_mult_div_eq_mod)
    moreover have "0 \<le> rem2 mod 365" "rem2 mod 365 < 365"
      by simp_all
    ultimately show ?thesis by linarith
  qed
  have yoe: "0 \<le> yoe" "yoe < 400"
    using c q r by (simp_all add: yoe_def)
  have quarter: "yoe div 4 = 25 * c + q"
    unfolding yoe_def by (rule div_unique_int [where r = r]) (use r in simp_all)
  have century: "yoe div 100 = c"
    unfolding yoe_def by (rule div_unique_int [where r = "4 * q + r"]) (use q r in simp_all)
  have mod4: "yoe mod 4 = r"
    unfolding yoe_def by (rule int_mod_pos_eq [where q = "25 * c + q"]) (use r in simp_all)
  have mod100: "yoe mod 100 = 4 * q + r"
    unfolding yoe_def by (rule int_mod_pos_eq [where q = c]) (use q r in simp_all)
  have leap: "doy = 365 \<longrightarrow> yoe mod 4 = 3 \<and> (yoe mod 100 \<noteq> 99 \<or> yoe = 399)"
  proof
    assume "doy = 365"
    with doy have "rem2 = 1460" "r = 3" by simp_all
    show "yoe mod 4 = 3 \<and> (yoe mod 100 \<noteq> 99 \<or> yoe = 399)"
    proof (cases "q = 24")
      case True
      with rem1_split \<open>rem2 = 1460\<close> have "rem1 = 36524" by simp
      with rem1 have "c = 3" by simp
      with True \<open>r = 3\<close> show ?thesis
        by (simp add: mod4) (simp add: yoe_def)
    next
      case False
      with q have "q \<le> 23" by simp
      with \<open>r = 3\<close> show ?thesis
        by (simp add: mod4 mod100)
    qed
  qed
  have "doe = rem1 + 36524 * c" "rem2 = doy + 365 * r"
    by (simp_all add: rem1_def doy_def)
  with rem1_split have "doe = 36524 * c + 1461 * q + 365 * r + doy"
    by linarith
  then have "doe = 365 * yoe + yoe div 4 - yoe div 100 + doy"
    unfolding quarter century by (simp add: yoe_def)
  moreover from doy have "0 \<le> doy" "doy \<le> 365" by simp_all
  ultimately show thesis
    using yoe leap by (intro that)
qed

lemma day_of_year_decomposition:
  fixes doy :: int
  assumes "0 \<le> doy" "doy \<le> 365"
  obtains m d where "1 \<le> m" "m \<le> 12" "1 \<le> d"
    "d \<le> (if m = 2 then (if doy = 365 then 29 else 28)
          else if m = 4 \<or> m = 6 \<or> m = 9 \<or> m = 11 then 30 else 31)"
    "doy = (153 * (if m > 2 then m - 3 else m + 9) + 2) div 5 + d - 1"
proof -
  consider "0 \<le> doy \<and> doy \<le> 30" | "31 \<le> doy \<and> doy \<le> 60" | "61 \<le> doy \<and> doy \<le> 91" | "92 \<le> doy \<and> doy \<le> 121" | "122 \<le> doy \<and> doy \<le> 152" | "153 \<le> doy \<and> doy \<le> 183" | "184 \<le> doy \<and> doy \<le> 213" | "214 \<le> doy \<and> doy \<le> 244" | "245 \<le> doy \<and> doy \<le> 274" | "275 \<le> doy \<and> doy \<le> 305" | "306 \<le> doy \<and> doy \<le> 336" | "337 \<le> doy \<and> doy \<le> 365"
    using assms by atomize_elim arith
  then show thesis
  proof cases
    case 1
    show ?thesis
      by (rule that [of 3 "doy + 1"]) (use 1 in simp_all)
  next
    case 2
    show ?thesis
      by (rule that [of 4 "doy - 30"]) (use 2 in simp_all)
  next
    case 3
    show ?thesis
      by (rule that [of 5 "doy - 60"]) (use 3 in simp_all)
  next
    case 4
    show ?thesis
      by (rule that [of 6 "doy - 91"]) (use 4 in simp_all)
  next
    case 5
    show ?thesis
      by (rule that [of 7 "doy - 121"]) (use 5 in simp_all)
  next
    case 6
    show ?thesis
      by (rule that [of 8 "doy - 152"]) (use 6 in simp_all)
  next
    case 7
    show ?thesis
      by (rule that [of 9 "doy - 183"]) (use 7 in simp_all)
  next
    case 8
    show ?thesis
      by (rule that [of 10 "doy - 213"]) (use 8 in simp_all)
  next
    case 9
    show ?thesis
      by (rule that [of 11 "doy - 244"]) (use 9 in simp_all)
  next
    case 10
    show ?thesis
      by (rule that [of 12 "doy - 274"]) (use 10 in simp_all)
  next
    case 11
    show ?thesis
      by (rule that [of 1 "doy - 305"]) (use 11 in simp_all)
  next
    case 12
    show ?thesis
      by (rule that [of 2 "doy - 336"]) (use 12 in simp_all)
  qed
qed

lemma shifted_mod:
  fixes a k n :: int
  shows "(a + k * (n * j) + 1) mod n = (a mod n + 1) mod n"
proof -
  have "(a + k * (n * j) + 1) mod n = ((a + 1) + n * (k * j)) mod n"
    by (simp add: algebra_simps)
  also have "\<dots> = (a + 1) mod n"
    by (rule mod_mult_self2)
  also have "\<dots> = (a mod n + 1) mod n"
    by (simp add: mod_add_left_eq)
  finally show ?thesis .
qed

lemma leap_year_from_era:
  fixes yoe era :: int
  assumes four: "yoe mod 4 = 3" and cent: "yoe mod 100 \<noteq> 99 \<or> yoe = 399"
  shows "leap_year (yoe + era * 400 + 1)"
proof -
  have "yoe + era * 400 + 1 = yoe + era * (4 * 100) + 1"
    by simp
  then have "(yoe + era * 400 + 1) mod 4 = (yoe mod 4 + 1) mod 4"
    by (simp only: shifted_mod)
  then have by4: "(yoe + era * 400 + 1) mod 4 = 0"
    by (simp add: four)
  have "yoe mod 100 \<noteq> 99 \<Longrightarrow> (yoe + era * 400 + 1) mod 100 \<noteq> 0"
  proof -
    assume ne: "yoe mod 100 \<noteq> 99"
    have "yoe + era * 400 + 1 = yoe + era * (100 * 4) + 1"
      by simp
    then have "(yoe + era * 400 + 1) mod 100 = (yoe mod 100 + 1) mod 100"
      by (simp only: shifted_mod)
    also have "\<dots> = yoe mod 100 + 1"
    proof (rule mod_pos_pos_trivial)
      show "0 \<le> yoe mod 100 + 1" by simp
      have "yoe mod 100 < 100" by simp
      with ne show "yoe mod 100 + 1 < 100" by linarith
    qed
    finally show ?thesis by simp
  qed
  moreover have "yoe = 399 \<Longrightarrow> (yoe + era * 400 + 1) mod 400 = 0"
    by simp
  ultimately show ?thesis
    using cent by4 by (auto simp add: leap_year_def)
qed

lemma days_from_civil_surjective:
  obtains y m d where "1 \<le> m" "m \<le> 12" "1 \<le> d" "d \<le> days_in_month y m"
    "days_from_civil y m d = z"
proof -
  define era where "era = (z + 719468) div 146097"
  define doe where "doe = (z + 719468) mod 146097"
  have z: "z + 719468 = era * 146097 + doe"
    by (simp add: era_def doe_def)
  have "0 \<le> doe" "doe < 146097"
    by (simp_all add: doe_def)
  then obtain yoe doy where yoe: "0 \<le> yoe" "yoe < 400" and doy: "0 \<le> doy" "doy \<le> 365"
    and leap: "doy = 365 \<longrightarrow> yoe mod 4 = 3 \<and> (yoe mod 100 \<noteq> 99 \<or> yoe = 399)"
    and doe: "doe = 365 * yoe + yoe div 4 - yoe div 100 + doy"
    by (rule doe_decomposition)
  from doy obtain m d where m: "1 \<le> m" "m \<le> 12" and d: "1 \<le> d"
    and len: "d \<le> (if m = 2 then (if doy = 365 then 29 else 28)
          else if m = 4 \<or> m = 6 \<or> m = 9 \<or> m = 11 then 30 else 31)"
    and day: "doy = (153 * (if m > 2 then m - 3 else m + 9) + 2) div 5 + d - 1"
    by (rule day_of_year_decomposition)
  define y where "y = yoe + era * 400 + (if m \<le> 2 then 1 else 0)"
  have "d \<le> days_in_month y m"
  proof (cases "m = 2 \<and> doy = 365")
    case True
    with leap have "leap_year (yoe + era * 400 + 1)"
      by (simp add: leap_year_from_era)
    with True len show ?thesis
      by (simp add: days_in_month_def y_def)
  next
    case False
    with len show ?thesis
      by (auto simp add: days_in_month_def split: if_splits)
  qed
  moreover have "days_from_civil y m d = z"
  proof -
    have shift: "(if m \<le> 2 then y - 1 else y) = yoe + era * 400"
      by (simp add: y_def)
    have "(yoe + era * 400) div 400 = era"
      by (rule div_unique_int [where r = yoe]) (use yoe in simp_all)
    moreover have "(yoe + era * 400) mod 400 = yoe"
      by (rule int_mod_pos_eq [where q = era]) (use yoe in simp_all)
    ultimately have "days_from_civil y m d = era * 146097 + doe - 719468"
      unfolding days_from_civil_def Let_def shift by (simp add: doe day)
    with z show ?thesis by simp
  qed
  ultimately show thesis
    using m d by (intro that)
qed

lemma time_fields:
  obtains y mo d h mi s ms where "valid_utc_fields y mo d h mi s ms"
    "t = MakeDate (MakeDay y (mo - 1) d) (MakeTime h mi s ms)"
proof -
  define tod where "tod = t mod 86400000"
  define h where "h = tod div 3600000"
  define mi where "mi = tod mod 3600000 div 60000"
  define s where "s = tod mod 60000 div 1000"
  define ms where "ms = tod mod 1000"
  have tod: "0 \<le> tod" "tod < 86400000"
    by (simp_all add: tod_def)
  have h: "0 \<le> h" "h < 24"
  proof -
    show "0 \<le> h"
      using tod by (simp add: h_def pos_imp_zdiv_nonneg_iff)
    have "tod div 3600000 \<le> 86399999 div 3600000"
      by (rule zdiv_mono1) (use tod in simp_all)
    then show "h < 24" by (simp add: h_def)
  qed
  have mi: "0 \<le> mi" "mi < 60"
  proof -
    show "0 \<le> mi"
      by (simp add: mi_def pos_imp_zdiv_nonneg_iff)
    have "tod mod 3600000 div 60000 \<le> 3599999 div 60000"
      by (rule zdiv_mono1) (simp_all add: zle_diff1_eq [symmetric])
    then show "mi < 60" by (simp add: mi_def)
  qed
  have s: "0 \<le> s" "s < 60"
  proof -
    show "0 \<le> s"
      by (simp add: s_def pos_imp_zdiv_nonneg_iff)
    have "tod mod 60000 div 1000 \<le> 59999 div 1000"
      by (rule zdiv_mono1) (simp_all add: zle_diff1_eq [symmetric])
    then show "s < 60" by (simp add: s_def)
  qed
  have ms: "0 \<le> ms" "ms < 1000"
    by (simp_all add: ms_def)
  have "tod = 3600000 * h + tod mod 3600000"
    by (simp add: h_def)
  moreover have "tod mod 3600000 = 60000 * mi + tod mod 3600000 mod 60000"
    by (simp add: mi_def)
  moreover have "tod mod 3600000 mod 60000 = tod mod 60000"
    by (simp add: mod_mod_cancel)
  moreover have "tod mod 60000 = 1000 * s + tod mod 60000 mod 1000"
    by (simp add: s_def)
  moreover have "tod mod 60000 mod 1000 = ms"
    by (simp add: ms_def mod_mod_cancel)
  ultimately have clock: "tod = MakeTime h mi s ms"
    unfolding MakeTime_def by linarith
  obtain y mo d where date: "1 \<le> mo" "mo \<le> 12" "1 \<le> d" "d \<le> days_in_month y mo"
    "days_from_civil y mo d = t div 86400000"
    by (rule days_from_civil_surjective)
  have "(mo - 1) div 12 = 0" "(mo - 1) mod 12 = mo - 1"
    using date(1,2) by simp_all
  then have "MakeDay y (mo - 1) d = days_from_civil y mo d"
    by (simp add: MakeDay_def days_from_civil_def Let_def)
  then have "MakeDate (MakeDay y (mo - 1) d) (MakeTime h mi s ms) = t div 86400000 * 86400000 + tod"
    by (simp add: MakeDate_def msPerDay_def date(5) clock)
  then have "t = MakeDate (MakeDay y (mo - 1) d) (MakeTime h mi s ms)"
    by (simp add: tod_def)
  moreover have "valid_utc_fields y mo d h mi s ms"
    using date(1-4) h mi s ms by (simp add: valid_utc_fields_def)
  ultimately show thesis
    by (intro that)
qed

lemma iso8601_utc_sample: "iso8601_utc 2024 4 19 13 19 0 0 = ''2024-04-19T13:19:00.000Z''"
  by code_simp

lemma iso8601_utc_pacific_sample: "iso8601_utc 2024 4 19 20 19 0 0 = ''2024-04-19T20:19:00.000Z''"
  by code_simp

section \<open>The upsert path\<close>

text \<open>
  C1. Whenever \<^verbatim>\<open>last_session\<close> parses and the upsert call that \<^verbatim>\<open>assertUser\<close>
  issues rejects with an error \<open>e\<close>, the function catches it: its promise is fulfilled
  (nothing is raised past the function), the value is \<^verbatim>\<open>undefined\<close>, and the one
  thing added after the request is a \<^verbatim>\<open>console.error\<close> line with \<^verbatim>\<open>e.data\<close>.
\<close>

theorem assertUser_contains_upsert_failure:
  assumes "Date_parse env last_session = Some t"
    and "putV2ObjectsPeopleRecords env (upsert_body email name (iso_string t)) upsert_metadata w
           = (Inl e, w')"
  shows "assertUser env email name last_session w =
           (Inr Undefined, w' @ [ConsoleError (error_data e)])"
  using assms
  by (simp add: assertUser_def assertUser_try_def toISOString_parsed)

theorem assertUser_contains_upsert_failure_witness:
  "Date_parse rejecting_env ''April 19, 2024, 1:19 PM'' = Some 1713532740000 \<and>
   assertUser rejecting_env ''jon@foo.com'' ''Jane Doe'' ''April 19, 2024, 1:19 PM'' [] =
     (Inr Undefined,
      [Fetch ''/v2/objects/people/records'' ''put''
         [upsert_body ''jon@foo.com'' ''Jane Doe'' ''2024-04-19T13:19:00.000Z'', upsert_metadata],
       ConsoleError (Obj [(''status_code'', Num 400), (''type'', Str ''invalid_request_error'')])])"
proof -
  have parsed: "Date_parse rejecting_env ''April 19, 2024, 1:19 PM'' = Some 1713532740000"
    by (simp add: rejecting_env_def utc_host_sample)
  have stamp: "iso_string 1713532740000 = ''2024-04-19T13:19:00.000Z''"
    by code_simp
  have rejected:
    "putV2ObjectsPeopleRecords rejecting_env
       (upsert_body ''jon@foo.com'' ''Jane Doe'' (iso_string 1713532740000)) upsert_metadata [] =
     (Inl (FetchError 400 (Obj [(''status_code'', Num 400), (''type'', Str ''invalid_request_error'')])),
      [Fetch ''/v2/objects/people/records'' ''put''
         [upsert_body ''jon@foo.com'' ''Jane Doe'' (iso_string 1713532740000), upsert_metadata]])"
    by (simp add: putV2ObjectsPeopleRecords_def sdk_core_fetch_def rejecting_env_def)
  show ?thesis
    using assertUser_contains_upsert_failure [OF parsed rejected] parsed
    by (simp add: stamp)
qed

text \<open>
  C2. Whenever \<^verbatim>\<open>last_session\<close> does not parse, \<^verbatim>\<open>assertUser\<close> rejects with the
  \<^verbatim>\<open>RangeError\<close> of \<^verbatim>\<open>toISOString\<close>, thrown before the \<^verbatim>\<open>try\<close> block; the trace is
  left as it was, so no request is issued and nothing is logged.
\<close>

theorem assertUser_unparseable_fails_before_request:
  assumes "Date_parse env last_session = None"
  shows "assertUser env email name last_session w = (Inl (RangeError ''Invalid time value''), w) \<and>
         upsert_requests env email name last_session w = []"
  using assms by (simp add: upsert_requests_def assertUser_def new_Date_def)

theorem assertUser_unparseable_fails_before_request_witness:
  "Date_parse accepting_env ''yesterday-ish'' = None \<and>
   assertUser accepting_env ''jon@foo.com'' ''Jane Doe'' ''yesterday-ish'' [] =
     (Inl (RangeError ''Invalid time value''), []) \<and>
   upsert_requests accepting_env ''jon@foo.com'' ''Jane Doe'' ''yesterday-ish'' [] = []"
proof -
  have unparsed: "Date_parse accepting_env ''yesterday-ish'' = None"
    by (simp add: accepting_env_def utc_host_parse_def)
  show ?thesis
    using assertUser_unparseable_fails_before_request [OF unparsed] unparsed by simp
qed

text \<open>
  C3. In the upsert payload, a name of two tokens separated by one space (such as
  "Jane Doe") gives \<^verbatim>\<open>first_name\<close> the first token, \<^verbatim>\<open>last_name\<close> the second and
  \<^verbatim>\<open>full_name\<close> the unsplit string; a name of one token (such as "Madonna") gives
  \<^verbatim>\<open>first_name\<close> that token and \<^verbatim>\<open>last_name\<close> \<^verbatim>\<open>undefined\<close>.
\<close>

theorem assertUser_name_tokens:
  assumes "Date_parse env last_session = Some t"
  shows "(CHR '' '' \<notin> set first \<and> CHR '' '' \<notin> set second \<longrightarrow>
            (\<exists>body metadata.
               upsert_payload env email (first @ '' '' @ second) last_session w = Some (body, metadata) \<and>
               payload_name body =
                 Obj [(''full_name'', Str (first @ '' '' @ second)),
                      (''first_name'', Str first),
                      (''last_name'', Str second)])) \<and>
         (CHR '' '' \<notin> set single \<longrightarrow>
            (\<exists>body metadata.
               upsert_payload env email single last_session w = Some (body, metadata) \<and>
               payload_name body =
                 Obj [(''full_name'', Str single),
                      (''first_name'', Str single),
                      (''last_name'', Undefined)]))"
proof (intro conjI impI)
  assume "CHR '' '' \<notin> set first \<and> CHR '' '' \<notin> set second"
  then have "String_split CHR '' '' (first @ '' '' @ second) = [first, second]"
    by (simp add: String_split_append String_split_no_separator)
  then show "\<exists>body metadata.
      upsert_payload env email (first @ '' '' @ second) last_session w = Some (body, metadata) \<and>
      payload_name body =
        Obj [(''full_name'', Str (first @ '' '' @ second)),
             (''first_name'', Str first),
             (''last_name'', Str second)]"
    by (simp add: upsert_payload_parsed [OF assms] payload_name_upsert_body
        index_or_undefined_def)
next
  assume "CHR '' '' \<notin> set single"
  then have "String_split CHR '' '' single = [single]"
    by (simp add: String_split_no_separator)
  then show "\<exists>body metadata.
      upsert_payload env email single last_session w = Some (body, metadata) \<and>
      payload_name body =
        Obj [(''full_name'', Str single), (''first_name'', Str single), (''last_name'', Undefined)]"
    by (simp add: upsert_payload_parsed [OF assms] payload_name_upsert_body
        index_or_undefined_def)
qed

theorem assertUser_name_tokens_witness:
  "Date_parse accepting_env ''April 19, 2024, 1:19 PM'' = Some 1713532740000 \<and>
   (\<exists>body metadata.
      upsert_payload accepting_env ''jon@foo.com'' ''Jane Doe'' ''April 19, 2024, 1:19 PM'' [] =
        Some (body, metadata) \<and>
      payload_name body =
        Obj [(''full_name'', Str ''Jane Doe''), (''first_name'', Str ''Jane''),
             (''last_name'', Str ''Doe'')]) \<and>
   (\<exists>body metadata.
      upsert_payload accepting_env ''jon@foo.com'' ''Madonna'' ''April 19, 2024, 1:19 PM'' [] =
        Some (body, metadata) \<and>
      payload_name body =
        Obj [(''full_name'', Str ''Madonna''), (''first_name'', Str ''Madonna''),
             (''last_name'', Undefined)])"
proof -
  have parsed: "Date_parse accepting_env ''April 19, 2024, 1:19 PM'' = Some 1713532740000"
    by (simp add: accepting_env_def utc_host_sample)
  show ?thesis
    using assertUser_name_tokens [OF parsed, of "''Jane''" "''Doe''" "''jon@foo.com''" "[]" "''Madonna''"]
      parsed
    by simp
qed

text \<open>
  C4. The upsert request carries the e-mail unmodified as
  \<^verbatim>\<open>email_addresses[0].email_address\<close>, its matching attribute is
  \<^verbatim>\<open>email_addresses\<close>, and the percent-encoded form the function computes first is not
  what is sent.
\<close>

theorem assertUser_email_unmodified:
  assumes "Date_parse env last_session = Some t"
  shows "\<exists>body metadata.
           upsert_payload env email name last_session w = Some (body, metadata) \<and>
           payload_email body = Str email \<and>
           property ''matching_attribute'' metadata = Str ''email_addresses'' \<and>
           (CHR ''@'' \<in> set email \<longrightarrow>
              payload_email body \<noteq> Str (String_replace ''@'' ''%40'' email))"
proof -
  have "CHR ''@'' \<in> set email \<Longrightarrow> String_replace ''@'' ''%40'' email \<noteq> email"
    using String_replace_at_longer [of email] by auto
  then show ?thesis
    by (auto simp add: upsert_payload_parsed [OF assms] payload_email_upsert_body
        upsert_metadata_def)
qed

theorem assertUser_email_unmodified_witness:
  "Date_parse accepting_env ''April 19, 2024, 1:19 PM'' = Some 1713532740000 \<and>
   (\<exists>body metadata.
      upsert_payload accepting_env ''jon@foo.com'' ''Jane Doe'' ''April 19, 2024, 1:19 PM'' [] =
        Some (body, metadata) \<and>
      payload_email body = Str ''jon@foo.com'' \<and>
      property ''matching_attribute'' metadata = Str ''email_addresses'' \<and>
      payload_email body \<noteq> Str ''jon%40foo.com'')"
proof -
  have parsed: "Date_parse accepting_env ''April 19, 2024, 1:19 PM'' = Some 1713532740000"
    by (simp add: accepting_env_def utc_host_sample)
  show ?thesis
    using assertUser_email_unmodified [OF parsed, of "''jon@foo.com''" "''Jane Doe''" "[]"] parsed
    by simp
qed

text \<open>
  C5 (as amended). For a name with at least one space, \<^verbatim>\<open>first_name\<close> is what stands
  before the first space and \<^verbatim>\<open>last_name\<close> is the second piece only: what stands
  between the first space and the next one, or the end of the name when there is no
  further space. For "Anne Marie Smith" the \<^verbatim>\<open>last_name\<close> is "Marie".
\<close>

theorem assertUser_last_name_second_token:
  assumes "Date_parse env last_session = Some t"
    and "CHR '' '' \<in> set name"
  shows "\<exists>body metadata.
           upsert_payload env email name last_session w = Some (body, metadata) \<and>
           property ''full_name'' (payload_name body) = Str name \<and>
           property ''first_name'' (payload_name body) =
             Str (takeWhile (\<lambda>c. c \<noteq> CHR '' '') name) \<and>
           property ''last_name'' (payload_name body) =
             Str (takeWhile (\<lambda>c. c \<noteq> CHR '' '')
                    (tl (dropWhile (\<lambda>c. c \<noteq> CHR '' '') name)))"
proof -
  let ?rest = "tl (dropWhile (\<lambda>c. c \<noteq> CHR '' '') name)"
  have pieces: "String_split CHR '' '' name =
      takeWhile (\<lambda>c. c \<noteq> CHR '' '') name # String_split CHR '' '' ?rest"
    using assms(2) by (rule String_split_first_separator)
  obtain piece others where rest: "String_split CHR '' '' ?rest = piece # others"
    using String_split_not_Nil [of "CHR '' ''" ?rest] by (cases "String_split CHR '' '' ?rest") auto
  have "piece = takeWhile (\<lambda>c. c \<noteq> CHR '' '') ?rest"
    using hd_String_split [of "CHR '' ''" ?rest] by (simp add: rest)
  with pieces rest have
    "index_or_undefined (String_split CHR '' '' name) 0 = Str (takeWhile (\<lambda>c. c \<noteq> CHR '' '') name)"
    "index_or_undefined (String_split CHR '' '' name) 1 = Str (takeWhile (\<lambda>c. c \<noteq> CHR '' '') ?rest)"
    by (simp_all add: index_or_undefined_def)
  then show ?thesis
    by (simp add: upsert_payload_parsed [OF assms(1)] payload_name_upsert_body)
qed

theorem assertUser_last_name_second_token_witness:
  "Date_parse accepting_env ''April 19, 2024, 1:19 PM'' = Some 1713532740000 \<and>
   CHR '' '' \<in> set ''Anne Marie Smith'' \<and>
   (\<exists>body metadata.
      upsert_payload accepting_env ''anne@example.com'' ''Anne Marie Smith''
        ''April 19, 2024, 1:19 PM'' [] = Some (body, metadata) \<and>
      property ''full_name'' (payload_name body) = Str ''Anne Marie Smith'' \<and>
      property ''first_name'' (payload_name body) = Str ''Anne'' \<and>
      property ''last_name'' (payload_name body) = Str ''Marie'')"
proof -
  have parsed: "Date_parse accepting_env ''April 19, 2024, 1:19 PM'' = Some 1713532740000"
    by (simp add: accepting_env_def utc_host_sample)
  have spaced: "CHR '' '' \<in> set ''Anne Marie Smith''"
    by simp
  show ?thesis
    using assertUser_last_name_second_token
      [OF parsed spaced, of "''anne@example.com''" "[]"] parsed
    by simp
qed

text \<open>
  C5 as stated fails: for "Anne Marie Smith" the \<^verbatim>\<open>last_name\<close> sent is "Marie" and
  not the remainder "Marie Smith".
\<close>

theorem last_name_is_not_the_remainder:
  "upsert_payload accepting_env ''anne@example.com'' ''Anne Marie Smith''
     ''April 19, 2024, 1:19 PM'' [] =
     Some (upsert_body ''anne@example.com'' ''Anne Marie Smith'' ''2024-04-19T13:19:00.000Z'',
           upsert_metadata) \<and>
   property ''last_name''
     (payload_name
        (upsert_body ''anne@example.com'' ''Anne Marie Smith'' ''2024-04-19T13:19:00.000Z'')) =
     Str ''Marie'' \<and>
   property ''last_name''
     (payload_name
        (upsert_body ''anne@example.com'' ''Anne Marie Smith'' ''2024-04-19T13:19:00.000Z'')) \<noteq>
     Str ''Marie Smith''"
proof -
  have parsed: "Date_parse accepting_env ''April 19, 2024, 1:19 PM'' = Some 1713532740000"
    by (simp add: accepting_env_def utc_host_sample)
  have sent: "upsert_payload accepting_env ''anne@example.com'' ''Anne Marie Smith''
     ''April 19, 2024, 1:19 PM'' [] =
     Some (upsert_body ''anne@example.com'' ''Anne Marie Smith'' ''2024-04-19T13:19:00.000Z'',
           upsert_metadata)"
    using upsert_payload_parsed [OF parsed] by (simp only: iso_string_sample)
  have pieces: "String_split CHR '' '' ''Anne Marie Smith'' = [''Anne'', ''Marie'', ''Smith'']"
    by simp
  have second: "index_or_undefined [''Anne'', ''Marie'', ''Smith''] 1 = Str ''Marie''"
    by (simp add: index_or_undefined_def)
  have differ: "Str ''Marie'' \<noteq> Str ''Marie Smith''"
    by simp
  show ?thesis
    unfolding last_name_upsert_body pieces second using sent differ by (intro conjI refl)
qed

text \<open>
  C6. Whenever \<^verbatim>\<open>last_session\<close> parses to a time value \<open>t\<close>, the \<^verbatim>\<open>last_session\<close>
  value of the upsert payload is the \<^verbatim>\<open>toISOString\<close> rendering of \<open>t\<close>; \<open>t\<close> has valid
  UTC calendar fields, and for any valid fields that denote \<open>t\<close> the payload is their
  ISO-8601 text \<^verbatim>\<open>YYYY-MM-DDTHH:mm:ss.sssZ\<close>. For "April 19, 2024, 1:19 PM" that is
  \<^verbatim>\<open>2024-04-19T13:19:00.000Z\<close> on a host in UTC and \<^verbatim>\<open>2024-04-19T20:19:00.000Z\<close> on a
  host seven hours behind.
\<close>

theorem assertUser_last_session_iso:
  assumes "Date_parse env last_session = Some t"
  shows "\<exists>body metadata.
           upsert_payload env email name last_session w = Some (body, metadata) \<and>
           payload_last_session body = Str (iso_string t) \<and>
           (\<exists>y' mo' d' h' mi' s' ms'.
              valid_utc_fields y' mo' d' h' mi' s' ms' \<and>
              t = MakeDate (MakeDay y' (mo' - 1) d') (MakeTime h' mi' s' ms') \<and>
              payload_last_session body = Str (iso8601_utc y' mo' d' h' mi' s' ms')) \<and>
           (valid_utc_fields y mo d h mi s ms \<and>
            t = MakeDate (MakeDay y (mo - 1) d) (MakeTime h mi s ms) \<longrightarrow>
              payload_last_session body = Str (iso8601_utc y mo d h mi s ms))"
proof -
  obtain y' mo' d' h' mi' s' ms' where fields: "valid_utc_fields y' mo' d' h' mi' s' ms'"
    "t = MakeDate (MakeDay y' (mo' - 1) d') (MakeTime h' mi' s' ms')"
    by (rule time_fields)
  then have "iso_string t = iso8601_utc y' mo' d' h' mi' s' ms'"
    by (simp add: iso_string_fields)
  with fields have "\<exists>y' mo' d' h' mi' s' ms'.
      valid_utc_fields y' mo' d' h' mi' s' ms' \<and>
      t = MakeDate (MakeDay y' (mo' - 1) d') (MakeTime h' mi' s' ms') \<and>
      Str (iso_string t) = Str (iso8601_utc y' mo' d' h' mi' s' ms')"
    by blast
  then show ?thesis
    by (simp add: upsert_payload_parsed [OF assms] payload_last_session_upsert_body
        iso_string_fields)
qed

theorem assertUser_last_session_iso_witness:
  "Date_parse accepting_env ''April 19, 2024, 1:19 PM'' =
     Some (MakeDate (MakeDay 2024 (4 - 1) 19) (MakeTime 13 19 0 0)) \<and>
   valid_utc_fields 2024 4 19 13 19 0 0 \<and>
   (\<exists>body metadata.
      upsert_payload accepting_env ''jon@foo.com'' ''Jane Doe'' ''April 19, 2024, 1:19 PM'' [] =
        Some (body, metadata) \<and>
      payload_last_session body = Str ''2024-04-19T13:19:00.000Z'') \<and>
   Date_parse pacific_env ''April 19, 2024, 1:19 PM'' =
     Some (MakeDate (MakeDay 2024 (4 - 1) 19) (MakeTime 20 19 0 0)) \<and>
   valid_utc_fields 2024 4 19 20 19 0 0 \<and>
   (\<exists>body metadata.
      upsert_payload pacific_env ''jon@foo.com'' ''Jane Doe'' ''April 19, 2024, 1:19 PM'' [] =
        Some (body, metadata) \<and>
      payload_last_session body = Str ''2024-04-19T20:19:00.000Z'')"
proof -
  have utc: "Date_parse accepting_env ''April 19, 2024, 1:19 PM'' =
      Some (MakeDate (MakeDay 2024 (4 - 1) 19) (MakeTime 13 19 0 0))"
    by (simp add: accepting_env_def utc_host_parse_def)
  have pacific: "Date_parse pacific_env ''April 19, 2024, 1:19 PM'' =
      Some (MakeDate (MakeDay 2024 (4 - 1) 19) (MakeTime 20 19 0 0))"
    by (simp add: pacific_env_def accepting_env_def pacific_host_parse_def MakeDate_def
        MakeTime_def)
  have valid: "valid_utc_fields 2024 4 19 13 19 0 0" "valid_utc_fields 2024 4 19 20 19 0 0"
    by (simp_all add: valid_utc_fields_def days_in_month_def)
  show ?thesis
    using assertUser_last_session_iso
        [OF utc, of "''jon@foo.com''" "''Jane Doe''" "[]" 2024 4 19 13 19 0 0]
      assertUser_last_session_iso
        [OF pacific, of "''jon@foo.com''" "''Jane Doe''" "[]" 2024 4 19 20 19 0 0]
      utc pacific valid
    by (simp add: iso8601_utc_sample iso8601_utc_pacific_sample) blast
qed

section \<open>The entry point\<close>

text \<open>
  C7. The entry point reads \<^verbatim>\<open>users\<close>, which nothing in the module binds: it rejects
  with a \<^verbatim>\<open>ReferenceError\<close> and leaves the trace as it was, so \<^verbatim>\<open>assertUser\<close> is never
  called and no record is processed, whatever the records would have been.
\<close>

theorem main_users_unbound:
  "main env users_json w = (Inl (ReferenceError ''users is not defined''), w) \<and>
   requests_of (drop (length w) (snd (main env users_json w))) = []"
  by (simp add: main_def is_bound_def module_bindings_def host_globals_def)

section \<open>The company helpers\<close>

text \<open>
  C8. No failure of \<^verbatim>\<open>fetchCompanies\<close>, \<^verbatim>\<open>createCompany\<close> or \<^verbatim>\<open>deleteCompany\<close> is
  caught inside the helper. When the client rejects the one call a helper makes, the
  helper rejects with the same error and logs nothing. \<^verbatim>\<open>fetchCompanies\<close> can also fail
  after its call was answered: reading \<^verbatim>\<open>res.data\<close> or \<^verbatim>\<open>res.data.data\<close> throws on a
  missing object, a missing listing makes the write refuse \<^verbatim>\<open>undefined\<close>, and the write
  itself can fail; each time the helper rejects with that error, and it is fulfilled only
  when every step succeeded. In every case a caller that awaits the helper outside a
  \<^verbatim>\<open>try\<close> rejects with the same error, whatever it had planned to run next. The upsert
  path differs: when its call is rejected, \<^verbatim>\<open>assertUser\<close> is fulfilled with
  \<^verbatim>\<open>undefined\<close> and the caller goes on.
\<close>

theorem company_helpers_do_not_catch:
  "(core_fetch env w ''/v2/objects/companies/records/query'' ''post'' [Obj []] = Inl e \<longrightarrow>
      fetchCompanies env w =
        (Inl e, w @ [Fetch ''/v2/objects/companies/records/query'' ''post'' [Obj []]]) \<and>
      await_then (fetchCompanies env) rest w =
        (Inl e, w @ [Fetch ''/v2/objects/companies/records/query'' ''post'' [Obj []]])) \<and>
   (core_fetch env w ''/v2/objects/companies/records'' ''post'' [createCompany_body name domain]
      = Inl e \<longrightarrow>
      createCompany env name domain w =
        (Inl e, w @ [Fetch ''/v2/objects/companies/records'' ''post''
                       [createCompany_body name domain]]) \<and>
      await_then (createCompany env name domain) rest w =
        (Inl e, w @ [Fetch ''/v2/objects/companies/records'' ''post''
                       [createCompany_body name domain]])) \<and>
   (core_fetch env w ''/v2/objects/companies/records/{record_id}'' ''delete''
      [deleteCompany_metadata company_id] = Inl e \<longrightarrow>
      deleteCompany env company_id w =
        (Inl e, w @ [Fetch ''/v2/objects/companies/records/{record_id}'' ''delete''
                       [deleteCompany_metadata company_id]]) \<and>
      await_then (deleteCompany env company_id) rest w =
        (Inl e, w @ [Fetch ''/v2/objects/companies/records/{record_id}'' ''delete''
                       [deleteCompany_metadata company_id]])) \<and>
   (core_fetch env w ''/v2/objects/companies/records/query'' ''post'' [Obj []] = Inr res \<and> get_data res = Inl e \<longrightarrow>
      fetchCompanies env w = (Inl e, w @ [Fetch ''/v2/objects/companies/records/query'' ''post'' [Obj []]]) \<and>
      await_then (fetchCompanies env) rest w = (Inl e, w @ [Fetch ''/v2/objects/companies/records/query'' ''post'' [Obj []]])) \<and>
   (core_fetch env w ''/v2/objects/companies/records/query'' ''post'' [Obj []] = Inr res \<and> get_data res = Inr body \<and> get_data body = Inl e \<longrightarrow>
      fetchCompanies env w = (Inl e, w @ [Fetch ''/v2/objects/companies/records/query'' ''post'' [Obj []]]) \<and>
      await_then (fetchCompanies env) rest w = (Inl e, w @ [Fetch ''/v2/objects/companies/records/query'' ''post'' [Obj []]])) \<and>
   (core_fetch env w ''/v2/objects/companies/records/query'' ''post'' [Obj []] = Inr res \<and> get_data res = Inr body \<and>
    get_data body = Inr Undefined \<longrightarrow>
      fetchCompanies env w = (Inl (TypeError ''ERR_INVALID_ARG_TYPE''), w @ [Fetch ''/v2/objects/companies/records/query'' ''post'' [Obj []]]) \<and>
      await_then (fetchCompanies env) rest w =
        (Inl (TypeError ''ERR_INVALID_ARG_TYPE''), w @ [Fetch ''/v2/objects/companies/records/query'' ''post'' [Obj []]])) \<and>
   (core_fetch env w ''/v2/objects/companies/records/query'' ''post'' [Obj []] = Inr res \<and> get_data res = Inr body \<and>
    get_data body = Inr listing \<and> listing \<noteq> Undefined \<and>
    fs_writeFileSync env (w @ [Fetch ''/v2/objects/companies/records/query'' ''post'' [Obj []]]) ''./out/companies.json''
      (JSON_stringify env listing 2) = Some e \<longrightarrow>
      fetchCompanies env w = (Inl e, w @ [Fetch ''/v2/objects/companies/records/query'' ''post'' [Obj []]]) \<and>
      await_then (fetchCompanies env) rest w = (Inl e, w @ [Fetch ''/v2/objects/companies/records/query'' ''post'' [Obj []]])) \<and>
   (fst (fetchCompanies env w) = Inr v \<longrightarrow>
      (\<exists>res' body' listing'.
         core_fetch env w ''/v2/objects/companies/records/query'' ''post'' [Obj []] = Inr res' \<and> get_data res' = Inr body' \<and>
         get_data body' = Inr listing' \<and> listing' \<noteq> Undefined \<and>
         fs_writeFileSync env (w @ [Fetch ''/v2/objects/companies/records/query'' ''post'' [Obj []]]) ''./out/companies.json''
           (JSON_stringify env listing' 2) = None)) \<and>
   (Date_parse env last_session = Some t \<and>
    core_fetch env w ''/v2/objects/people/records'' ''put''
      [upsert_body email full_name (iso_string t), upsert_metadata] = Inl e \<longrightarrow>
      fst (assertUser env email full_name last_session w) = Inr Undefined \<and>
      await_then (assertUser env email full_name last_session) rest w =
        rest Undefined (snd (assertUser env email full_name last_session w)))"
proof -
  have upsert: "fst (assertUser env email full_name last_session w) = Inr Undefined \<and>
      await_then (assertUser env email full_name last_session) rest w =
        rest Undefined (snd (assertUser env email full_name last_session w))"
    if "Date_parse env last_session = Some t"
      and "core_fetch env w ''/v2/objects/people/records'' ''put''
        [upsert_body email full_name (iso_string t), upsert_metadata] = Inl e"
    using that by (simp add: assertUser_parsed await_then_def)
  have fulfilled: "\<exists>res' body' listing'.
         core_fetch env w ''/v2/objects/companies/records/query'' ''post'' [Obj []] = Inr res' \<and> get_data res' = Inr body' \<and>
         get_data body' = Inr listing' \<and> listing' \<noteq> Undefined \<and>
         fs_writeFileSync env (w @ [Fetch ''/v2/objects/companies/records/query'' ''post'' [Obj []]]) ''./out/companies.json''
           (JSON_stringify env listing' 2) = None"
    if "fst (fetchCompanies env w) = Inr v"
    using that
    by (auto simp add: fetchCompanies_def await_then_def postV2ObjectsCompaniesRecordsQuery_def
        sdk_core_fetch_def split: sum.splits option.splits if_splits)
  have helpers:
    "(core_fetch env w ''/v2/objects/companies/records/query'' ''post'' [Obj []] = Inl e \<longrightarrow>
        fetchCompanies env w = (Inl e, w @ [Fetch ''/v2/objects/companies/records/query'' ''post'' [Obj []]]))"
    "(core_fetch env w ''/v2/objects/companies/records/query'' ''post'' [Obj []] = Inr res \<and> get_data res = Inl e \<longrightarrow>
        fetchCompanies env w = (Inl e, w @ [Fetch ''/v2/objects/companies/records/query'' ''post'' [Obj []]]))"
    "(core_fetch env w ''/v2/objects/companies/records/query'' ''post'' [Obj []] = Inr res \<and> get_data res = Inr body \<and> get_data body = Inl e \<longrightarrow>
        fetchCompanies env w = (Inl e, w @ [Fetch ''/v2/objects/companies/records/query'' ''post'' [Obj []]]))"
    "(core_fetch env w ''/v2/objects/companies/records/query'' ''post'' [Obj []] = Inr res \<and> get_data res = Inr body \<and>
      get_data body = Inr Undefined \<longrightarrow>
        fetchCompanies env w = (Inl (TypeError ''ERR_INVALID_ARG_TYPE''), w @ [Fetch ''/v2/objects/companies/records/query'' ''post'' [Obj []]]))"
    "(core_fetch env w ''/v2/objects/companies/records/query'' ''post'' [Obj []] = Inr res \<and> get_data res = Inr body \<and>
      get_data body = Inr listing \<and> listing \<noteq> Undefined \<and>
      fs_writeFileSync env (w @ [Fetch ''/v2/objects/companies/records/query'' ''post'' [Obj []]]) ''./out/companies.json''
        (JSON_stringify env listing 2) = Some e \<longrightarrow>
        fetchCompanies env w = (Inl e, w @ [Fetch ''/v2/objects/companies/records/query'' ''post'' [Obj []]]))"
    by (simp_all add: fetchCompanies_def await_then_def postV2ObjectsCompaniesRecordsQuery_def
        sdk_core_fetch_def)
  have others:
    "(core_fetch env w ''/v2/objects/companies/records'' ''post'' [createCompany_body name domain]
        = Inl e \<longrightarrow>
        createCompany env name domain w =
          (Inl e, w @ [Fetch ''/v2/objects/companies/records'' ''post''
                         [createCompany_body name domain]]))"
    "(core_fetch env w ''/v2/objects/companies/records/{record_id}'' ''delete''
        [deleteCompany_metadata company_id] = Inl e \<longrightarrow>
        deleteCompany env company_id w =
          (Inl e, w @ [Fetch ''/v2/objects/companies/records/{record_id}'' ''delete''
                         [deleteCompany_metadata company_id]]))"
    by (simp_all add: createCompany_def deleteCompany_def await_then_def
        postV2ObjectsCompaniesRecords_def deleteV2ObjectsCompaniesRecordsRecord_id_def
        sdk_core_fetch_def)
  show ?thesis
    using upsert fulfilled helpers others
    by (simp add: await_then_rejected)
qed

theorem company_helpers_do_not_catch_witness:
  "core_fetch rejecting_env [] ''/v2/objects/companies/records/query'' ''post'' [Obj []] = Inl (FetchError 400 (Obj [(''status_code'', Num 400), (''type'', Str ''invalid_request_error'')])) \<and>
   fetchCompanies rejecting_env [] = (Inl (FetchError 400 (Obj [(''status_code'', Num 400), (''type'', Str ''invalid_request_error'')])), [Fetch ''/v2/objects/companies/records/query'' ''post'' [Obj []]]) \<and>
   createCompany rejecting_env ''Nike'' ''nike.com'' [] =
     (Inl (FetchError 400 (Obj [(''status_code'', Num 400), (''type'', Str ''invalid_request_error'')])),
      [Fetch ''/v2/objects/companies/records'' ''post'' [createCompany_body ''Nike'' ''nike.com'']]) \<and>
   await_then (deleteCompany rejecting_env ''3db23152'')
     (\<lambda>v. assertUser rejecting_env ''jon@foo.com'' ''Jane Doe'' ''April 19, 2024, 1:19 PM'') [] =
     (Inl (FetchError 400 (Obj [(''status_code'', Num 400), (''type'', Str ''invalid_request_error'')])),
      [Fetch ''/v2/objects/companies/records/{record_id}'' ''delete''
         [deleteCompany_metadata ''3db23152'']]) \<and>
   Date_parse rejecting_env ''April 19, 2024, 1:19 PM'' = Some 1713532740000 \<and>
   fst (assertUser rejecting_env ''jon@foo.com'' ''Jane Doe'' ''April 19, 2024, 1:19 PM'' []) =
     Inr Undefined \<and>
   get_data Undefined = Inl (TypeError ''Cannot read properties of undefined (reading 'data')'') \<and>
   fetchCompanies (answering_env Undefined) [] = (Inl (TypeError ''Cannot read properties of undefined (reading 'data')''), [Fetch ''/v2/objects/companies/records/query'' ''post'' [Obj []]]) \<and>
   get_data (Obj [(''data'', Null)]) = Inr Null \<and>
   get_data Null = Inl (TypeError ''Cannot read properties of null (reading 'data')'') \<and>
   fetchCompanies (answering_env (Obj [(''data'', Null)])) [] = (Inl (TypeError ''Cannot read properties of null (reading 'data')''), [Fetch ''/v2/objects/companies/records/query'' ''post'' [Obj []]]) \<and>
   get_data (Obj [(''data'', Obj [(''message'', Str ''ok'')])]) =
     Inr (Obj [(''message'', Str ''ok'')]) \<and>
   get_data (Obj [(''message'', Str ''ok'')]) = Inr Undefined \<and>
   fetchCompanies (answering_env (Obj [(''data'', Obj [(''message'', Str ''ok'')])])) [] =
     (Inl (TypeError ''ERR_INVALID_ARG_TYPE''), [Fetch ''/v2/objects/companies/records/query'' ''post'' [Obj []]]) \<and>
   fs_writeFileSync readonly_env [Fetch ''/v2/objects/companies/records/query'' ''post'' [Obj []]] ''./out/companies.json''
     (JSON_stringify readonly_env (Arr []) 2) = Some (SystemError ''ENOENT'') \<and>
   fetchCompanies readonly_env [] = (Inl (SystemError ''ENOENT''), [Fetch ''/v2/objects/companies/records/query'' ''post'' [Obj []]]) \<and>
   fst (fetchCompanies accepting_env []) = Inr Undefined \<and>
   (\<exists>res' body' listing'.
      core_fetch accepting_env [] ''/v2/objects/companies/records/query'' ''post'' [Obj []] = Inr res' \<and> get_data res' = Inr body' \<and>
      get_data body' = Inr listing' \<and> listing' \<noteq> Undefined \<and>
      fs_writeFileSync accepting_env [Fetch ''/v2/objects/companies/records/query'' ''post'' [Obj []]] ''./out/companies.json''
        (JSON_stringify accepting_env listing' 2) = None)"
proof -
  have rejects: "core_fetch rejecting_env w path verb args = Inl (FetchError 400 (Obj [(''status_code'', Num 400), (''type'', Str ''invalid_request_error'')]))"
    for w path verb args
    by (simp add: rejecting_env_def)
  have parsed: "Date_parse rejecting_env ''April 19, 2024, 1:19 PM'' = Some 1713532740000"
    by (simp add: rejecting_env_def utc_host_sample)
  have answers: "core_fetch (answering_env res) w path verb args = Inr res"
    for res w path verb args
    by (simp add: answering_env_def)
  have accepts: "core_fetch accepting_env w path verb args = Inr (Obj [(''data'', Obj [(''data'', Arr [])]), (''status'', Num 200)])"
    for w path verb args
    by (simp add: accepting_env_def)
  have readonly: "core_fetch readonly_env w path verb args = Inr (Obj [(''data'', Obj [(''data'', Arr [])]), (''status'', Num 200)])"
    "fs_writeFileSync readonly_env w path content = Some (SystemError ''ENOENT'')"
    for w path verb args content
    by (simp_all add: readonly_env_def accepting_env_def)
  have reads:
    "get_data Undefined = Inl (TypeError ''Cannot read properties of undefined (reading 'data')'')"
    "get_data Null = Inl (TypeError ''Cannot read properties of null (reading 'data')'')"
    "get_data (Obj [(''data'', Null)]) = Inr Null"
    "get_data (Obj [(''data'', Obj [(''message'', Str ''ok'')])]) =
       Inr (Obj [(''message'', Str ''ok'')])"
    "get_data (Obj [(''message'', Str ''ok'')]) = Inr Undefined"
    "get_data (Obj [(''data'', Obj [(''data'', Arr [])]), (''status'', Num 200)]) = Inr (Obj [(''data'', Arr [])])"
    "get_data (Obj [(''data'', Arr [])]) = Inr (Arr [])"
    by simp_all
  have distinct: "Arr [] \<noteq> Undefined"
    by simp
  have succeeded: "fst (fetchCompanies accepting_env []) = Inr Undefined"
    by (simp add: fetchCompanies_def await_then_def postV2ObjectsCompaniesRecordsQuery_def
        sdk_core_fetch_def accepts) (simp add: accepting_env_def)
  note at_rejecting = company_helpers_do_not_catch
      [where env = rejecting_env and w = "[]" and e = "FetchError 400 (Obj [(''status_code'', Num 400), (''type'', Str ''invalid_request_error'')])"
        and rest = "\<lambda>v. assertUser rejecting_env ''jon@foo.com'' ''Jane Doe'' ''April 19, 2024, 1:19 PM''"
        and name = "''Nike''" and domain = "''nike.com''" and company_id = "''3db23152''"
        and last_session = "''April 19, 2024, 1:19 PM''" and t = 1713532740000
        and email = "''jon@foo.com''" and full_name = "''Jane Doe''"]
  note at_undefined = company_helpers_do_not_catch
      [where env = "answering_env Undefined" and w = "[]" and res = Undefined and e = "TypeError ''Cannot read properties of undefined (reading 'data')''"]
  note at_null = company_helpers_do_not_catch
      [where env = "answering_env (Obj [(''data'', Null)])" and w = "[]"
        and res = "Obj [(''data'', Null)]" and body = Null and e = "TypeError ''Cannot read properties of null (reading 'data')''"]
  note at_missing = company_helpers_do_not_catch
      [where env = "answering_env (Obj [(''data'', Obj [(''message'', Str ''ok'')])])"
        and w = "[]" and res = "Obj [(''data'', Obj [(''message'', Str ''ok'')])]"
        and body = "Obj [(''message'', Str ''ok'')]"]
  note at_readonly = company_helpers_do_not_catch
      [where env = readonly_env and w = "[]" and res = "Obj [(''data'', Obj [(''data'', Arr [])]), (''status'', Num 200)]"
        and body = "Obj [(''data'', Arr [])]" and listing = "Arr []"
        and e = "SystemError ''ENOENT''"]
  note at_accepting = company_helpers_do_not_catch
      [where env = accepting_env and w = "[]" and v = Undefined]
  have r1: "fetchCompanies rejecting_env [] = (Inl (FetchError 400 (Obj [(''status_code'', Num 400), (''type'', Str ''invalid_request_error'')])), [Fetch ''/v2/objects/companies/records/query'' ''post'' [Obj []]])"
    and r2: "createCompany rejecting_env ''Nike'' ''nike.com'' [] =
     (Inl (FetchError 400 (Obj [(''status_code'', Num 400), (''type'', Str ''invalid_request_error'')])),
      [Fetch ''/v2/objects/companies/records'' ''post'' [createCompany_body ''Nike'' ''nike.com'']])"
    and r3: "await_then (deleteCompany rejecting_env ''3db23152'')
     (\<lambda>v. assertUser rejecting_env ''jon@foo.com'' ''Jane Doe'' ''April 19, 2024, 1:19 PM'') [] =
     (Inl (FetchError 400 (Obj [(''status_code'', Num 400), (''type'', Str ''invalid_request_error'')])),
      [Fetch ''/v2/objects/companies/records/{record_id}'' ''delete''
         [deleteCompany_metadata ''3db23152'']])"
    and r4: "fst (assertUser rejecting_env ''jon@foo.com'' ''Jane Doe'' ''April 19, 2024, 1:19 PM'' []) =
     Inr Undefined"
    using at_rejecting by (simp_all only: rejects parsed simp_thms append_Nil)
  have r5: "fetchCompanies (answering_env Undefined) [] = (Inl (TypeError ''Cannot read properties of undefined (reading 'data')''), [Fetch ''/v2/objects/companies/records/query'' ''post'' [Obj []]])"
    using at_undefined by (simp only: answers reads simp_thms append_Nil)
  have r6: "fetchCompanies (answering_env (Obj [(''data'', Null)])) [] = (Inl (TypeError ''Cannot read properties of null (reading 'data')''), [Fetch ''/v2/objects/companies/records/query'' ''post'' [Obj []]])"
    using at_null by (simp only: answers reads simp_thms append_Nil)
  have r7: "fetchCompanies (answering_env (Obj [(''data'', Obj [(''message'', Str ''ok'')])])) [] =
     (Inl (TypeError ''ERR_INVALID_ARG_TYPE''), [Fetch ''/v2/objects/companies/records/query'' ''post'' [Obj []]])"
    using at_missing by (simp only: answers reads simp_thms append_Nil)
  have r8: "fetchCompanies readonly_env [] = (Inl (SystemError ''ENOENT''), [Fetch ''/v2/objects/companies/records/query'' ''post'' [Obj []]])"
    using at_readonly distinct by (simp only: readonly reads simp_thms append_Nil)
  have r9: "\<exists>res' body' listing'.
      core_fetch accepting_env [] ''/v2/objects/companies/records/query'' ''post'' [Obj []] = Inr res' \<and> get_data res' = Inr body' \<and>
      get_data body' = Inr listing' \<and> listing' \<noteq> Undefined \<and>
      fs_writeFileSync accepting_env [Fetch ''/v2/objects/companies/records/query'' ''post'' [Obj []]] ''./out/companies.json''
        (JSON_stringify accepting_env listing' 2) = None"
    using at_accepting succeeded by (simp only: simp_thms append_Nil)
  show ?thesis
    using r1 r2 r3 r4 r5 r6 r7 r8 r9 succeeded parsed rejects [of "[]"] reads(1-5) readonly(2)
    by (intro conjI) assumption+
qed

text \<open>
  C9. \<^verbatim>\<open>fetchCompanies\<close> issues exactly one request, the company-records query with an
  empty body. When the response carries an array at \<^verbatim>\<open>data.data\<close> and the write
  succeeds, that array, formatted by \<^verbatim>\<open>JSON.stringify\<close> with indentation 2, is written
  to \<^verbatim>\<open>./out/companies.json\<close>; nothing else happens and the result is \<^verbatim>\<open>undefined\<close>.
\<close>

theorem fetchCompanies_writes_listing:
  assumes "core_fetch env w ''/v2/objects/companies/records/query'' ''post'' [Obj []] = Inr res"
    and "get_data res = Inr body"
    and "get_data body = Inr (Arr records)"
    and "fs_writeFileSync env
           (w @ [Fetch ''/v2/objects/companies/records/query'' ''post'' [Obj []]])
           ''./out/companies.json'' (JSON_stringify env (Arr records) 2) = None"
  shows "fetchCompanies env w =
           (Inr Undefined,
            w @ [Fetch ''/v2/objects/companies/records/query'' ''post'' [Obj []],
                 WriteFile ''./out/companies.json'' (JSON_stringify env (Arr records) 2)]) \<and>
         requests_of (drop (length w) (snd (fetchCompanies env w))) =
           [(''/v2/objects/companies/records/query'', ''post'', [Obj []])]"
proof
  show "fetchCompanies env w =
      (Inr Undefined,
       w @ [Fetch ''/v2/objects/companies/records/query'' ''post'' [Obj []],
            WriteFile ''./out/companies.json'' (JSON_stringify env (Arr records) 2)])"
    using assms
    by (simp add: fetchCompanies_def await_then_def postV2ObjectsCompaniesRecordsQuery_def
        sdk_core_fetch_def)
  show "requests_of (drop (length w) (snd (fetchCompanies env w))) =
      [(''/v2/objects/companies/records/query'', ''post'', [Obj []])]"
    by (rule fetchCompanies_one_request)
qed

theorem fetchCompanies_writes_listing_witness:
  "core_fetch accepting_env [] ''/v2/objects/companies/records/query'' ''post'' [Obj []] =
     Inr (Obj [(''data'', Obj [(''data'', Arr [])]), (''status'', Num 200)]) \<and>
   get_data (Obj [(''data'', Obj [(''data'', Arr [])]), (''status'', Num 200)]) =
     Inr (Obj [(''data'', Arr [])]) \<and>
   get_data (Obj [(''data'', Arr [])]) = Inr (Arr []) \<and>
   fetchCompanies accepting_env [] =
     (Inr Undefined,
      [Fetch ''/v2/objects/companies/records/query'' ''post'' [Obj []],
       WriteFile ''./out/companies.json'' ''[]''])"
proof -
  have answered:
    "core_fetch accepting_env [] ''/v2/objects/companies/records/query'' ''post'' [Obj []] =
       Inr (Obj [(''data'', Obj [(''data'', Arr [])]), (''status'', Num 200)])"
    by (simp add: accepting_env_def)
  have outer: "get_data (Obj [(''data'', Obj [(''data'', Arr [])]), (''status'', Num 200)]) =
      Inr (Obj [(''data'', Arr [])])"
    by simp
  have inner: "get_data (Obj [(''data'', Arr [])]) = Inr (Arr [])"
    by simp
  have written: "fs_writeFileSync accepting_env
      ([] @ [Fetch ''/v2/objects/companies/records/query'' ''post'' [Obj []]])
      ''./out/companies.json'' (JSON_stringify accepting_env (Arr []) 2) = None"
    by (simp add: accepting_env_def)
  have rendered: "JSON_stringify accepting_env (Arr []) 2 = ''[]''"
    by (simp add: accepting_env_def)
  show ?thesis
    using fetchCompanies_writes_listing [OF answered outer inner written] answered outer inner
    by (simp only: rendered append_Nil simp_thms)
qed

text \<open>
  C10. Whatever the client answers, \<^verbatim>\<open>createCompany\<close> and \<^verbatim>\<open>deleteCompany\<close> print
  the response object with \<^verbatim>\<open>console.log\<close> and are fulfilled with \<^verbatim>\<open>undefined\<close>; no
  fulfilled result of either is ever anything else.
\<close>

theorem company_helpers_return_undefined:
  "(core_fetch env w ''/v2/objects/companies/records'' ''post'' [createCompany_body name domain]
      = Inr res \<longrightarrow>
      createCompany env name domain w =
        (Inr Undefined,
         w @ [Fetch ''/v2/objects/companies/records'' ''post'' [createCompany_body name domain],
              ConsoleLog res])) \<and>
   (core_fetch env w ''/v2/objects/companies/records/{record_id}'' ''delete''
      [deleteCompany_metadata company_id] = Inr res \<longrightarrow>
      deleteCompany env company_id w =
        (Inr Undefined,
         w @ [Fetch ''/v2/objects/companies/records/{record_id}'' ''delete''
                [deleteCompany_metadata company_id],
              ConsoleLog res])) \<and>
   (fst (createCompany env name domain w) = Inr v \<longrightarrow> v = Undefined) \<and>
   (fst (deleteCompany env company_id w) = Inr v \<longrightarrow> v = Undefined)"
  by (auto simp add: createCompany_def deleteCompany_def await_then_def
      postV2ObjectsCompaniesRecords_def deleteV2ObjectsCompaniesRecordsRecord_id_def
      sdk_core_fetch_def split: sum.splits)

theorem company_helpers_return_undefined_witness:
  "core_fetch accepting_env [] ''/v2/objects/companies/records'' ''post''
     [createCompany_body ''Nike'' ''nike.com''] =
     Inr (Obj [(''data'', Obj [(''data'', Arr [])]), (''status'', Num 200)]) \<and>
   createCompany accepting_env ''Nike'' ''nike.com'' [] =
     (Inr Undefined,
      [Fetch ''/v2/objects/companies/records'' ''post'' [createCompany_body ''Nike'' ''nike.com''],
       ConsoleLog (Obj [(''data'', Obj [(''data'', Arr [])]), (''status'', Num 200)])]) \<and>
   deleteCompany accepting_env ''3db23152'' [] =
     (Inr Undefined,
      [Fetch ''/v2/objects/companies/records/{record_id}'' ''delete''
         [deleteCompany_metadata ''3db23152''],
       ConsoleLog (Obj [(''data'', Obj [(''data'', Arr [])]), (''status'', Num 200)])]) \<and>
   fst (createCompany accepting_env ''Nike'' ''nike.com'' []) = Inr Undefined"
proof -
  have answers: "core_fetch accepting_env w path verb args =
      Inr (Obj [(''data'', Obj [(''data'', Arr [])]), (''status'', Num 200)])"
    for w path verb args
    by (simp add: accepting_env_def)
  show ?thesis
    using company_helpers_return_undefined
      [of accepting_env "[]" "''Nike''" "''nike.com''"
        "Obj [(''data'', Obj [(''data'', Arr [])]), (''status'', Num 200)]" "''3db23152''" Undefined]
    by (simp only: answers simp_thms append_Nil fst_conv)
qed

end
